theory Spec2Isabelle
  imports Complex_Main "HOL-Library.Product_Lexorder"
begin


section \<open>JavaScript values\<close>

text \<open>
  A JavaScript string is a sequence of UTF-16 code units; the keyword tables and the test
  inputs of the program are Chinese text, so a string is modelled as the list of its code
  units (integers from 0 to 65535). \<open>asc\<close> writes an ASCII literal.
\<close>

type_synonym jsstring = "int list"

definition asc :: "string \<Rightarrow> jsstring" where
  "asc s = map of_char s"

text \<open>
  A JavaScript number: NaN, an infinity, or a finite value of binary64, kept as the
  rational it stands for. The two zeros are one. \<open>to_binary64\<close> below rounds a rational to
  such a value.
\<close>

datatype jsnum = NaN | PosInf | NegInf | Fin rat

text \<open>The primitive values a JSON body or a JSON reply of a provider can hold in a field.\<close>

datatype jsval = JUndefined | JNull | JBool bool | JNum jsnum | JStr jsstring

fun truthy :: "jsval \<Rightarrow> bool" where
  "truthy JUndefined = False"
| "truthy JNull = False"
| "truthy (JBool b) = b"
| "truthy (JNum NaN) = False"
| "truthy (JNum (Fin q)) = (q \<noteq> 0)"
| "truthy (JNum _) = True"
| "truthy (JStr s) = (s \<noteq> [])"

text \<open>\<open>a || b\<close>\<close>

definition js_or :: "jsval \<Rightarrow> jsval \<Rightarrow> jsval" where
  "js_or a b = (if truthy a then a else b)"

subsection \<open>Strings\<close>

text \<open>
  \<open>String.prototype.toLowerCase\<close>, on the letters A to Z. The other code units are left as
  they are: an ideograph has no case, and the keyword tables hold ideographs and ASCII
  letters only.
\<close>

definition lower_unit :: "int \<Rightarrow> int" where
  "lower_unit c = (if 65 \<le> c \<and> c \<le> 90 then c + 32 else c)"

definition toLowerCase :: "jsstring \<Rightarrow> jsstring" where
  "toLowerCase s = map lower_unit s"

fun starts_with :: "jsstring \<Rightarrow> jsstring \<Rightarrow> bool" where
  "starts_with s [] = True"
| "starts_with [] (k # ks) = False"
| "starts_with (c # cs) (k # ks) = (c = k \<and> starts_with cs ks)"

text \<open>\<open>String.prototype.includes\<close>\<close>

fun str_includes :: "jsstring \<Rightarrow> jsstring \<Rightarrow> bool" where
  "str_includes [] k = (k = [])"
| "str_includes (c # cs) k = (starts_with (c # cs) k \<or> str_includes cs k)"

text \<open>The white space and line terminators that \<open>String.prototype.trim\<close> removes.\<close>

definition is_space :: "int \<Rightarrow> bool" where
  "is_space c \<longleftrightarrow>
     (9 \<le> c \<and> c \<le> 13) \<or> c = 32 \<or> c = 160 \<or> c = 5760 \<or> (8192 \<le> c \<and> c \<le> 8202) \<or>
     c = 8232 \<or> c = 8233 \<or> c = 8239 \<or> c = 8287 \<or> c = 12288 \<or> c = 65279"

definition trim :: "jsstring \<Rightarrow> jsstring" where
  "trim s = rev (dropWhile is_space (rev (dropWhile is_space s)))"

section \<open>Category Classifier\<close>

text \<open>
  The category labels and keywords of \<open>CATEGORY_KEYWORDS\<close>, as code units. In the order of
  the table: dining (U+9910 U+996E), shopping (U+8D2D U+7269), travel (U+51FA U+884C),
  digital (U+6570 U+7801), entertainment (U+5A31 U+4E50), telecom (U+901A U+8BAF),
  medical (U+533B U+7597), transfer (U+8F6C U+8D26), utilities (U+751F U+6D3B U+7F34 U+8D39).
\<close>

definition cat_dining :: jsstring where "cat_dining = [39184, 39278]"
definition cat_shopping :: jsstring where "cat_shopping = [36141, 29289]"
definition cat_travel :: jsstring where "cat_travel = [20986, 34892]"
definition cat_digital :: jsstring where "cat_digital = [25968, 30721]"
definition cat_entertainment :: jsstring where "cat_entertainment = [23089, 20048]"
definition cat_telecom :: jsstring where "cat_telecom = [36890, 35759]"
definition cat_medical :: jsstring where "cat_medical = [21307, 30103]"
definition cat_transfer :: jsstring where "cat_transfer = [36716, 36134]"
definition cat_utilities :: jsstring where "cat_utilities = [29983, 27963, 32564, 36153]"

text \<open>The label returned when nothing matches (U+5176 U+4ED6, "other").\<close>

definition cat_other :: jsstring where "cat_other = [20854, 20182]"

text \<open>The second transfer term of the special case (U+6536 U+6B3E, "receive payment").\<close>

definition kw_receive :: jsstring where "kw_receive = [25910, 27454]"

text \<open>The Starbucks keyword (U+661F U+5DF4 U+514B).\<close>

definition kw_starbucks :: jsstring where "kw_starbucks = [26143, 24052, 20811]"

definition kws_dining :: "jsstring list" where
  "kws_dining =
    [[40614, 24403, 21171], [32943, 24503, 22522], kw_starbucks, [32654, 22242],
     [39295, 20102, 20040], [24517, 32988, 23458], [28023, 24213, 25438], [21916, 33590],
     [22902, 33590], [39184, 39278], [22806, 21334], [39277], [21320, 39277], [26202, 39277],
     [26089, 39184], [28779, 38149]]"

definition kws_shopping :: "jsstring list" where
  "kws_shopping =
    [[28120, 23453], [22825, 29483], [20140, 19996], [25340, 22810, 22810], [36229, 24066],
     [27779, 23572, 29595], [23665, 22982], [36141, 29289], [20080, 33756]]"

definition kws_travel :: "jsstring list" where
  "kws_travel =
    [[28404, 28404], [39640, 24503], [25171, 36710], [20849, 20139, 21333, 36710],
     [22320, 38081], [20844, 20132], [39640, 36895], [20572, 36710]]"

definition kws_digital :: "jsstring list" where
  "kws_digital =
    [asc ''Apple'', [33529, 26524], [23567, 31859], [21326, 20026], [25968, 30721],
     [37197, 20214]]"

definition kws_entertainment :: "jsstring list" where
  "kws_entertainment =
    [[33150, 35759, 35270, 39057], [29233, 22855, 33402], [20248, 37239], [66, 31449],
     [81, 81, 38899, 20048], [32593, 26131, 20113], [28216, 25103], [20250, 21592],
     [30005, 24433]]"

definition kws_telecom :: "jsstring list" where
  "kws_telecom =
    [[35805, 36153], [27969, 37327], [32852, 36890], [31227, 21160], [30005, 20449],
     [23485, 24102]]"

definition kws_medical :: "jsstring list" where
  "kws_medical =
    [[21307, 38498], [33647, 24215], [21307, 20445], [20307, 26816], [35786, 25152]]"

definition kws_transfer :: "jsstring list" where
  "kws_transfer =
    [cat_transfer, kw_receive, [36824, 27454], [32418, 21253],
     [24453, 30830, 35748, 25910, 27454]]"

definition kws_utilities :: "jsstring list" where
  "kws_utilities =
    [[27700, 36153], [30005, 36153], [29123, 27668], [29289, 19994], [20379, 26262],
     [29983, 27963, 32564, 36153]]"

definition CATEGORY_KEYWORDS :: "(jsstring \<times> jsstring list) list" where
  "CATEGORY_KEYWORDS =
    [(cat_dining, kws_dining), (cat_shopping, kws_shopping), (cat_travel, kws_travel),
     (cat_digital, kws_digital), (cat_entertainment, kws_entertainment),
     (cat_telecom, kws_telecom), (cat_medical, kws_medical), (cat_transfer, kws_transfer),
     (cat_utilities, kws_utilities)]"

definition CATEGORY_PRIORITY :: "jsstring list" where
  "CATEGORY_PRIORITY =
    [cat_transfer, cat_utilities, cat_travel, cat_dining, cat_shopping, cat_digital,
     cat_entertainment, cat_telecom, cat_medical]"

text \<open>
  The inner loop of \<open>guessCategory\<close>: some keyword of the list, empty ones skipped, occurs
  in the lowered text.
\<close>

definition kw_hit :: "jsstring \<Rightarrow> jsstring list \<Rightarrow> bool" where
  "kw_hit text kws = list_ex (\<lambda>kw. kw \<noteq> [] \<and> str_includes text (toLowerCase kw)) kws"

text \<open>The set \<open>hits\<close>, in insertion order.\<close>

definition category_hits :: "jsstring \<Rightarrow> jsstring list" where
  "category_hits text = map fst (filter (\<lambda>e. kw_hit text (snd e)) CATEGORY_KEYWORDS)"

definition guess_text :: "jsstring \<Rightarrow> jsstring \<Rightarrow> jsstring" where
  "guess_text payee note = toLowerCase (payee @ [32] @ note)"

definition guessCategory :: "jsstring \<Rightarrow> jsstring \<Rightarrow> jsstring" where
  "guessCategory payee note =
    (let text = guess_text payee note; hits = category_hits text in
     if hits = [] then
       (if str_includes text cat_transfer \<or> str_includes text kw_receive then cat_transfer
        else cat_other)
     else
       (case find (\<lambda>c. c \<in> set hits) CATEGORY_PRIORITY of
          Some c \<Rightarrow> c
        | None \<Rightarrow> hd hits))"

section \<open>Numbers from strings\<close>

definition is_digit :: "int \<Rightarrow> bool" where
  "is_digit c \<longleftrightarrow> 48 \<le> c \<and> c \<le> 57"

definition digits_val :: "jsstring \<Rightarrow> int" where
  "digits_val ds = foldl (\<lambda>a c. 10 * a + (c - 48)) 0 ds"

text \<open>The value of a digit in a radix up to 16, when it is one.\<close>

definition radix_digit :: "int \<Rightarrow> int \<Rightarrow> int option" where
  "radix_digit radix c =
    (let v = (if is_digit c then c - 48
              else if 97 \<le> c \<and> c \<le> 102 then c - 87
              else if 65 \<le> c \<and> c \<le> 70 then c - 55
              else 16)
     in if v < radix then Some v else None)"

fun radix_val :: "int \<Rightarrow> int \<Rightarrow> jsstring \<Rightarrow> int option" where
  "radix_val radix acc [] = Some acc"
| "radix_val radix acc (c # cs) =
    (case radix_digit radix c of
       None \<Rightarrow> None
     | Some v \<Rightarrow> radix_val radix (radix * acc + v) cs)"

definition pow10 :: "int \<Rightarrow> rat" where
  "pow10 e = (if 0 \<le> e then 10 ^ nat e else 1 / 10 ^ nat (- e))"

text \<open>\<open>ExponentPart\<close>: nothing, or e or E, an optional sign and at least one digit.\<close>

definition exponent_part :: "jsstring \<Rightarrow> int option" where
  "exponent_part s =
    (case s of
       [] \<Rightarrow> Some 0
     | c # r \<Rightarrow>
        if c = 101 \<or> c = 69 then
          (let neg = (r \<noteq> [] \<and> hd r = 45);
               ds = (if r \<noteq> [] \<and> (hd r = 45 \<or> hd r = 43) then tl r else r)
           in if ds \<noteq> [] \<and> list_all is_digit ds
              then Some (if neg then - digits_val ds else digits_val ds)
              else None)
        else None)"

text \<open>
  \<open>StrUnsignedDecimalLiteral\<close> without \<open>Infinity\<close>: digits with an optional fraction, or a
  dot and digits, then an optional exponent.
\<close>

definition unsigned_decimal :: "jsstring \<Rightarrow> rat option" where
  "unsigned_decimal s =
    (let ip = takeWhile is_digit s; r1 = dropWhile is_digit s;
         dot = (r1 \<noteq> [] \<and> hd r1 = 46);
         fp = (if dot then takeWhile is_digit (tl r1) else []);
         r2 = (if dot then dropWhile is_digit (tl r1) else r1)
     in if ip = [] \<and> fp = [] then None
        else (case exponent_part r2 of
                None \<Rightarrow> None
              | Some e \<Rightarrow>
                  Some ((of_int (digits_val ip) + of_int (digits_val fp) / 10 ^ length fp)
                        * pow10 e)))"

subsection \<open>Rounding to binary64\<close>

text \<open>The number of binary digits of a positive integer.\<close>

function bit_length :: "int \<Rightarrow> int" where
  "bit_length n = (if n \<le> 0 then 0 else 1 + bit_length (n div 2))"
  by pat_completeness auto
termination
  by (relation "measure nat") auto

text \<open>The power of two with an exponent that is not negative.\<close>

function pow2 :: "int \<Rightarrow> int" where
  "pow2 k = (if k \<le> 0 then 1 else 2 * pow2 (k - 1))"
  by pat_completeness auto
termination
  by (relation "measure nat") auto

text \<open>
  The quotient of two positive integers rounded to the nearest integer, to the even one
  of two that are equally near.
\<close>

definition round_div :: "int \<Rightarrow> int \<Rightarrow> int" where
  "round_div a b =
    (let f = a div b; r = a mod b
     in if 2 * r < b then f
        else if b < 2 * r then f + 1
        else if even f then f else f + 1)"

text \<open>
  The Number value for a mathematical value: the nearest value of binary64, ties to the
  even significand. For the magnitude \<open>n / d\<close> with \<open>2^e1 \<le> n / d < 2^(e1 + 1)\<close> the values near
  it are the multiples of \<open>2^s\<close>, where \<open>s = max e1 (-1022) - 52\<close> (53 bits of precision,
  subnormal values below the exponent -1022), and \<open>m\<close> is the multiple it rounds to. A
  magnitude that rounds to 2^1024 or more is an infinity, one that rounds to the
  multiple 0 is 0.
\<close>

definition to_binary64 :: "rat \<Rightarrow> jsnum" where
  "to_binary64 q =
    (if q = 0 then Fin 0
     else
       (let n = \<bar>fst (quotient_of q)\<bar>;
            d = snd (quotient_of q);
            e0 = bit_length n - bit_length d;
            e1 = (if (if 0 \<le> e0 then pow2 e0 * d \<le> n else d \<le> n * pow2 (- e0))
                  then e0 else e0 - 1);
            e = max e1 (- 1022);
            s = e - 52
        in if 1023 < e then (if q < 0 then NegInf else PosInf)
           else
             (let m = (if 0 \<le> s then round_div n (d * pow2 s)
                       else round_div (n * pow2 (- s)) d)
              in if e = 1023 \<and> m = pow2 53 then (if q < 0 then NegInf else PosInf)
                 else Fin ((if q < 0 then - 1 else 1)
                           * (if 0 \<le> s then of_int (m * pow2 s)
                              else of_int m / of_int (pow2 (- s)))))))"

text \<open>
  \<open>StringToNumber\<close>, the conversion behind \<open>Number(s)\<close> and \<open>+s\<close>: white space is trimmed, the
  empty string is 0, a literal with prefix 0x, 0o or 0b takes no sign, everything that is
  not a numeric literal is NaN. The value of the literal is rounded to binary64.
\<close>

definition StringToNumber :: "jsstring \<Rightarrow> jsnum" where
  "StringToNumber s =
    (let t = trim s in
     if t = [] then Fin 0
     else if length t \<ge> 2 \<and> hd t = 48 \<and> lower_unit (t ! 1) \<in> {120, 111, 98} then
       (let radix = (if lower_unit (t ! 1) = 120 then 16
                     else if lower_unit (t ! 1) = 111 then 8 else 2)
        in if drop 2 t = [] then NaN
           else (case radix_val radix 0 (drop 2 t) of
                   None \<Rightarrow> NaN
                 | Some v \<Rightarrow> to_binary64 (of_int v)))
     else
       (let neg = (hd t = 45);
            u = (if hd t = 45 \<or> hd t = 43 then tl t else t)
        in if u = asc ''Infinity'' then (if neg then NegInf else PosInf)
           else (case unsigned_decimal u of
                   None \<Rightarrow> NaN
                 | Some q \<Rightarrow> to_binary64 (if neg then - q else q))))"

text \<open>\<open>Number(v)\<close> and \<open>+v\<close> on a primitive value.\<close>

fun ToNumber :: "jsval \<Rightarrow> jsnum" where
  "ToNumber JUndefined = NaN"
| "ToNumber JNull = Fin 0"
| "ToNumber (JBool b) = Fin (if b then 1 else 0)"
| "ToNumber (JNum n) = n"
| "ToNumber (JStr s) = StringToNumber s"

definition isFinite :: "jsnum \<Rightarrow> bool" where
  "isFinite n = (case n of Fin _ \<Rightarrow> True | _ \<Rightarrow> False)"

section \<open>Heuristic Field Extractor\<close>

subsection \<open>The regular expressions\<close>

text \<open>
  A pattern applied at the head of a string gives the ways it can match there, in the
  order in which a backtracking matcher tries them; a way is what was matched and what is
  left. The first way of the leftmost position is the match that \<open>String.prototype.match\<close>
  returns.
\<close>

text \<open>A class repeated between \<open>lo\<close> and \<open>hi\<close> times, greedily: the longest run first.\<close>

definition rep_class :: "(int \<Rightarrow> bool) \<Rightarrow> nat \<Rightarrow> nat \<Rightarrow> jsstring \<Rightarrow> (jsstring \<times> jsstring) list" where
  "rep_class P lo hi s =
    (let n = min hi (length (takeWhile P s))
     in map (\<lambda>k. (take k s, drop k s)) (rev [lo ..< Suc n]))"

text \<open>One or more, greedily.\<close>

definition plus_class :: "(int \<Rightarrow> bool) \<Rightarrow> jsstring \<Rightarrow> (jsstring \<times> jsstring) list" where
  "plus_class P s = rep_class P 1 (length s) s"

definition lit :: "int \<Rightarrow> jsstring \<Rightarrow> jsstring list" where
  "lit c s = (case s of [] \<Rightarrow> [] | x # r \<Rightarrow> if x = c then [r] else [])"

text \<open>A literal word, compared without case (the flag \<open>i\<close>).\<close>

definition word_ci :: "jsstring \<Rightarrow> jsstring \<Rightarrow> jsstring list" where
  "word_ci w s =
    (if length w \<le> length s \<and> toLowerCase (take (length w) s) = toLowerCase w
     then [drop (length w) s] else [])"

text \<open>An optional part, greedily: with the part first, then without it.\<close>

definition opt :: "(jsstring \<Rightarrow> (jsstring \<times> jsstring) list) \<Rightarrow> jsstring \<Rightarrow> (jsstring \<times> jsstring) list" where
  "opt p s = p s @ [([], s)]"

text \<open>The leftmost match: the first position at which the pattern has a way to match.\<close>

fun re_search :: "(jsstring \<Rightarrow> 'a list) \<Rightarrow> jsstring \<Rightarrow> 'a option" where
  "re_search p [] = (case p [] of [] \<Rightarrow> None | r # _ \<Rightarrow> Some r)"
| "re_search p (c # cs) = (case p (c # cs) of [] \<Rightarrow> re_search p cs | r # _ \<Rightarrow> Some r)"

text \<open>\<open>[.,]\d+\<close>\<close>

definition fraction_at :: "jsstring \<Rightarrow> (jsstring \<times> jsstring) list" where
  "fraction_at s =
    (case s of
       [] \<Rightarrow> []
     | c # r \<Rightarrow> if c = 46 \<or> c = 44 then [(c # ds, r'). (ds, r') \<leftarrow> plus_class is_digit r] else [])"

text \<open>
  \<open>\s*(?:\<dots>|\<dots>|rmb|cny|\<dots>)\<close>: white space, then yuan (U+5143), kuai (U+5757), rmb, cny or
  the fullwidth yen sign (U+FFE5).
\<close>

definition currency_at :: "jsstring \<Rightarrow> (jsstring \<times> jsstring) list" where
  "currency_at s =
    [(ws @ take (length r - length r') r, r').
       (ws, r) \<leftarrow> rep_class is_space 0 (length s) s,
       r' \<leftarrow> lit 20803 r @ lit 22359 r @ word_ci (asc ''rmb'') r @ word_ci (asc ''cny'') r
             @ lit 65509 r]"

text \<open>
  \<open>/(-?\d+(?:[.,]\d+)?)(?:\s*(?:\<dots>))?/i\<close> at the head of \<open>s\<close>: the first group of each way.
\<close>

definition amount_at :: "jsstring \<Rightarrow> jsstring list" where
  "amount_at s =
    [sg @ ds @ fr.
       (sg, s1) \<leftarrow> opt (\<lambda>x. map (\<lambda>r. ([45], r)) (lit 45 x)) s,
       (ds, s2) \<leftarrow> plus_class is_digit s1,
       (fr, s3) \<leftarrow> opt fraction_at s2,
       (cur, s4) \<leftarrow> opt currency_at s3]"

text \<open>\<open>(\d{4}-\d{1,2}-\d{1,2})\<close>\<close>

definition ymd_at :: "jsstring \<Rightarrow> (jsstring \<times> jsstring) list" where
  "ymd_at s =
    [(y @ [45] @ mo @ [45] @ d, s5).
       (y, s1) \<leftarrow> rep_class is_digit 4 4 s,
       s2 \<leftarrow> lit 45 s1,
       (mo, s3) \<leftarrow> rep_class is_digit 1 2 s2,
       s4 \<leftarrow> lit 45 s3,
       (d, s5) \<leftarrow> rep_class is_digit 1 2 s4]"

text \<open>\<open>(\d{1,2}:\d{2})\<close>\<close>

definition hm_at :: "jsstring \<Rightarrow> (jsstring \<times> jsstring) list" where
  "hm_at s =
    [(h @ [58] @ mi, s3).
       (h, s1) \<leftarrow> rep_class is_digit 1 2 s,
       s2 \<leftarrow> lit 58 s1,
       (mi, s3) \<leftarrow> rep_class is_digit 2 2 s2]"

text \<open>\<open>/(\d{4}-\d{1,2}-\d{1,2})[ T]?(\d{1,2}:\d{2})/\<close>: the two groups.\<close>

definition full_at :: "jsstring \<Rightarrow> (jsstring \<times> jsstring) list" where
  "full_at s =
    [(g1, g2).
       (g1, s1) \<leftarrow> ymd_at s,
       (sep, s2) \<leftarrow> opt (rep_class (\<lambda>c. c = 32 \<or> c = 84) 1 1) s1,
       (g2, s3) \<leftarrow> hm_at s2]"

text \<open>The CJK range from U+4E00 to U+9FA5, and the ASCII letters.\<close>

definition is_cjk :: "int \<Rightarrow> bool" where
  "is_cjk c \<longleftrightarrow> 19968 \<le> c \<and> c \<le> 40869"

definition is_letter :: "int \<Rightarrow> bool" where
  "is_letter c \<longleftrightarrow> (65 \<le> c \<and> c \<le> 90) \<or> (97 \<le> c \<and> c \<le> 122)"

text \<open>The class of the marked payee: CJK, letters, digits, underscore, hyphen and the middle dot (U+00B7).\<close>

definition is_payee_unit :: "int \<Rightarrow> bool" where
  "is_payee_unit c \<longleftrightarrow> is_cjk c \<or> is_letter c \<or> is_digit c \<or> c = 95 \<or> c = 45 \<or> c = 183"

text \<open>The marker characters: U+5728, U+4E8E, U+53BB, U+7ED9, U+5411 (at, to, toward).\<close>

definition is_marker :: "int \<Rightarrow> bool" where
  "is_marker c \<longleftrightarrow> c \<in> {22312, 20110, 21435, 32473, 21521}"

definition marked_payee_at :: "jsstring \<Rightarrow> jsstring list" where
  "marked_payee_at s =
    (case s of
       [] \<Rightarrow> []
     | c # r \<Rightarrow> if is_marker c then map fst (rep_class is_payee_unit 2 20 r) else [])"

definition word_payee_at :: "jsstring \<Rightarrow> jsstring list" where
  "word_payee_at s = map fst (rep_class (\<lambda>c. is_cjk c \<or> is_letter c) 2 20 s)"

subsection \<open>parseTextHeuristic\<close>

text \<open>\<open>s.replace(",", "")\<close>: the first comma is removed.\<close>

fun remove_first_comma :: "jsstring \<Rightarrow> jsstring" where
  "remove_first_comma [] = []"
| "remove_first_comma (c # cs) = (if c = 44 then cs else c # remove_first_comma cs)"

text \<open>
  The draft record, as the JavaScript object it is: \<open>amount\<close> is a number or null, \<open>time\<close> a
  string or null. A provider's JSON reply has the same keys with any value.
\<close>

record parsed =
  p_amount :: jsval
  p_time :: jsval
  p_category :: jsval
  p_payee :: jsval
  p_note :: jsval

definition parseTextHeuristic :: "jsstring \<Rightarrow> parsed" where
  "parseTextHeuristic text =
    (let s = trim text;
         amount = (case re_search amount_at s of
                     None \<Rightarrow> JNull
                   | Some g \<Rightarrow> JNum (StringToNumber (remove_first_comma g)));
         mFull = re_search full_at s;
         mYMD = re_search ymd_at s;
         mHM = re_search hm_at s;
         timeStr = (case mFull of
                      Some (g1, g2) \<Rightarrow> JStr (g1 @ [32] @ g2)
                    | None \<Rightarrow>
                       (case (mYMD, mHM) of
                          (Some (ymd, _), Some (hm, _)) \<Rightarrow> JStr (ymd @ [32] @ hm)
                        | (None, Some (hm, _)) \<Rightarrow> JStr hm
                        | (_, None) \<Rightarrow> JNull));
         payee0 = (case re_search marked_payee_at s of None \<Rightarrow> [] | Some p \<Rightarrow> p);
         payee = (if payee0 = [] then
                    (case re_search word_payee_at s of None \<Rightarrow> [] | Some p \<Rightarrow> p)
                  else payee0);
         category = guessCategory payee s
     in \<lparr>p_amount = amount, p_time = timeStr, p_category = JStr category,
         p_payee = JStr payee, p_note = JStr s\<rparr>)"

text \<open>The keyword list of a category label: \<open>CATEGORY_KEYWORDS[c]\<close>.\<close>

definition keywords_of :: "jsstring \<Rightarrow> jsstring list" where
  "keywords_of c = (case map_of CATEGORY_KEYWORDS c of Some kws \<Rightarrow> kws | None \<Rightarrow> [])"

section \<open>Dates and the services outside the program\<close>

text \<open>
  A JavaScript \<open>Date\<close>: a time value in milliseconds since the epoch, or the Invalid Date
  whose time value is NaN.
\<close>

datatype jsdate = InvalidDate | DateMs int

text \<open>
  What the program calls and does not define: the date parser and the time zone data of
  the JavaScript engine, the number formatter, the date parsers and the regular expression
  matcher of the document store, the BSON writer of the driver, and the two extraction
  providers. They are taken as parameters, so every theorem holds for each of them.
  \<^item> \<open>Date_parse s\<close>: the time value of \<open>new Date(s)\<close> on a string, \<open>None\<close> when it is NaN;
  \<^item> \<open>zone_parts tz t\<close>: year, month, day, hour and minute of the instant \<open>t\<close> in the zone
    \<open>tz\<close>, as \<open>Intl.DateTimeFormat("en-CA", \<dots>).formatToParts\<close> gives them; \<open>None\<close> when the
    constructor throws a RangeError on the zone;
  \<^item> \<open>NumberToString\<close>: the string of a number;
  \<^item> \<open>dateFromString_fmt format s\<close>: \<open>$dateFromString\<close> with a format and no time zone,
    \<open>None\<close> when the conversion fails (which \<open>onError: null\<close> turns into null);
  \<^item> \<open>toDate_string s\<close>: \<open>$toDate\<close> on a string, \<open>None\<close> when the conversion fails;
  \<^item> \<open>dateFromString_zone format tz s\<close>: \<open>$dateFromString\<close> with the time zone \<open>tz\<close> (any
    stored value) and maybe a format; \<open>Inr None\<close> when the conversion fails, \<open>Inl\<close> an error
    that \<open>onError\<close> does not catch (the store evaluates the zone before the string);
  \<^item> \<open>regex_i pattern s\<close>: the store finds a match of the pattern, case ignored, in \<open>s\<close>;
  \<^item> \<open>invalid_date_bson\<close>: the instant the driver writes for an Invalid Date;
  \<^item> \<open>callOpenAIExtract\<close>, \<open>callQwenExtract\<close>: the reply of a provider read as a JSON value,
    \<open>None\<close> when the call fails or the reply is not an object.
\<close>

datatype mongo_error = ConversionFailure | BadTimezone | BadStage

record parts =
  part_year :: jsstring
  part_month :: jsstring
  part_day :: jsstring
  part_hour :: jsstring
  part_minute :: jsstring

text \<open>A value stored in a field of a document.\<close>

datatype bson =
  BNull | BBool bool | BNum jsnum | BStr jsstring | BDate int | BArr "bson list" | BObj

record env =
  Date_parse :: "jsstring \<Rightarrow> int option"
  zone_parts :: "jsstring \<Rightarrow> int \<Rightarrow> parts option"
  NumberToString :: "jsnum \<Rightarrow> jsstring"
  dateFromString_fmt :: "jsstring \<Rightarrow> jsstring \<Rightarrow> int option"
  toDate_string :: "jsstring \<Rightarrow> int option"
  dateFromString_zone :: "jsstring option \<Rightarrow> bson \<Rightarrow> jsstring \<Rightarrow> mongo_error + int option"
  regex_i :: "jsstring \<Rightarrow> jsstring \<Rightarrow> bool"
  invalid_date_bson :: int
  callOpenAIExtract :: "jsstring \<Rightarrow> parsed option"
  callQwenExtract :: "jsstring \<Rightarrow> parsed option"

text \<open>\<open>String(v)\<close>, \<open>v.toString()\<close> and a template literal, on a primitive value.\<close>

fun ToString :: "env \<Rightarrow> jsval \<Rightarrow> jsstring" where
  "ToString e JUndefined = asc ''undefined''"
| "ToString e JNull = asc ''null''"
| "ToString e (JBool b) = (if b then asc ''true'' else asc ''false'')"
| "ToString e (JNum n) = NumberToString e n"
| "ToString e (JStr s) = s"

text \<open>
  \<open>new Date(v)\<close>: a string is parsed, any other value is converted to a number and clipped
  (\<open>TimeClip\<close>: at most 8.64e15 milliseconds from the epoch, truncated to an integer).
\<close>

definition TimeClip :: "jsnum \<Rightarrow> jsdate" where
  "TimeClip n =
    (case n of
       Fin q \<Rightarrow> if \<bar>q\<bar> \<le> 8640000000000000 then DateMs (if 0 \<le> q then \<lfloor>q\<rfloor> else \<lceil>q\<rceil>)
                else InvalidDate
     | _ \<Rightarrow> InvalidDate)"

definition new_Date :: "env \<Rightarrow> jsval \<Rightarrow> jsdate" where
  "new_Date e v =
    (case v of
       JStr s \<Rightarrow> (case Date_parse e s of None \<Rightarrow> InvalidDate | Some t \<Rightarrow> DateMs t)
     | JUndefined \<Rightarrow> InvalidDate
     | _ \<Rightarrow> TimeClip (ToNumber v))"

subsection \<open>The UTC calendar\<close>

text \<open>Decimal digits of a number that is not negative.\<close>

function dec_digits :: "int \<Rightarrow> jsstring" where
  "dec_digits n = (if n < 10 then [48 + n] else dec_digits (n div 10) @ [48 + n mod 10])"
  by pat_completeness auto
termination
  by (relation "measure nat") auto

text \<open>\<open>String(n)\<close> on an integer.\<close>

definition int_string :: "int \<Rightarrow> jsstring" where
  "int_string n = (if n < 0 then 45 # dec_digits (- n) else dec_digits n)"

text \<open>\<open>s.padStart(k, "0")\<close>\<close>

definition pad_zero :: "nat \<Rightarrow> jsstring \<Rightarrow> jsstring" where
  "pad_zero k s = replicate (k - length s) 48 @ s"

text \<open>\<open>pad\<close> of \<open>formatTimeLocal\<close>: \<open>String(n).padStart(2, "0")\<close>.\<close>

definition pad :: "int \<Rightarrow> jsstring" where
  "pad n = pad_zero 2 (int_string n)"

text \<open>
  Year, month (1 to 12) and day of the month of a day number counted from the epoch, in
  the proleptic Gregorian calendar of ECMAScript.
\<close>

definition civil_from_days :: "int \<Rightarrow> int \<times> int \<times> int" where
  "civil_from_days days =
    (let z = days + 719468;
         era = z div 146097;
         doe = z - era * 146097;
         yoe = (doe - doe div 1460 + doe div 36524 - doe div 146096) div 365;
         doy = doe - (365 * yoe + yoe div 4 - yoe div 100);
         mp = (5 * doy + 2) div 153;
         d = doy - (153 * mp + 2) div 5 + 1;
         m = (if mp < 10 then mp + 3 else mp - 9);
         y = yoe + era * 400 + (if m \<le> 2 then 1 else 0)
     in (y, m, d))"

definition getUTCFullYear :: "int \<Rightarrow> int" where
  "getUTCFullYear t = fst (civil_from_days (t div 86400000))"

text \<open>\<open>getUTCMonth\<close> counts from 0.\<close>

definition getUTCMonth :: "int \<Rightarrow> int" where
  "getUTCMonth t = fst (snd (civil_from_days (t div 86400000))) - 1"

definition getUTCDate :: "int \<Rightarrow> int" where
  "getUTCDate t = snd (snd (civil_from_days (t div 86400000)))"

definition getUTCHours :: "int \<Rightarrow> int" where
  "getUTCHours t = (t mod 86400000) div 3600000"

definition getUTCMinutes :: "int \<Rightarrow> int" where
  "getUTCMinutes t = (t mod 3600000) div 60000"

text \<open>
  \<open>Date.prototype.toISOString\<close> on a valid date: \<open>YYYY-MM-DDTHH:mm:ss.sssZ\<close>, the year with
  a sign and six digits when it is not between 0 and 9999.
\<close>

definition toISOString :: "int \<Rightarrow> jsstring" where
  "toISOString t =
    (let y = getUTCFullYear t;
         year = (if 0 \<le> y \<and> y \<le> 9999 then pad_zero 4 (dec_digits y)
                 else (if y < 0 then 45 else 43) # pad_zero 6 (dec_digits \<bar>y\<bar>))
     in year @ [45] @ pad (getUTCMonth t + 1) @ [45] @ pad (getUTCDate t) @ [84]
        @ pad (getUTCHours t) @ [58] @ pad (getUTCMinutes t) @ [58]
        @ pad ((t mod 60000) div 1000) @ [46] @ pad_zero 3 (dec_digits (t mod 1000)) @ [90])"

section \<open>Time Reconciliation Engine: the write side\<close>

definition default_tz :: jsval where
  "default_tz = JStr (asc ''Asia/Shanghai'')"

text \<open>
  \<open>formatTimeLocal(date, tz)\<close>. The formatter throws on an Invalid Date and on a zone it
  does not know; the \<open>catch\<close> then formats in UTC, and an Invalid Date gives NaN for every
  field there.
\<close>

definition formatTimeLocal :: "env \<Rightarrow> jsdate \<Rightarrow> jsval \<Rightarrow> jsstring" where
  "formatTimeLocal e date tz =
    (case date of
       InvalidDate \<Rightarrow> asc ''NaN-NaN-NaN NaN:NaN''
     | DateMs t \<Rightarrow>
        (case zone_parts e (ToString e tz) t of
           Some p \<Rightarrow>
             part_year p @ [45] @ part_month p @ [45] @ part_day p @ [32]
             @ part_hour p @ [58] @ part_minute p
         | None \<Rightarrow>
             int_string (getUTCFullYear t) @ [45] @ pad (getUTCMonth t + 1) @ [45]
             @ pad (getUTCDate t) @ [32] @ pad (getUTCHours t) @ [58]
             @ pad (getUTCMinutes t)))"

text \<open>\<open>s.replace("/", "-")\<close>: the first slash becomes a hyphen.\<close>

fun replace_first_slash :: "jsstring \<Rightarrow> jsstring" where
  "replace_first_slash [] = []"
| "replace_first_slash (c # cs) = (if c = 47 then 45 # cs else c # replace_first_slash cs)"

text \<open>\<open>/^(\d{1,2}:\d{2})$/\<close>\<close>

definition bare_hm :: "jsstring \<Rightarrow> jsstring option" where
  "bare_hm s = (case filter (\<lambda>w. snd w = []) (hm_at s) of [] \<Rightarrow> None | w # _ \<Rightarrow> Some (fst w))"

text \<open>
  \<open>combineDateTime(tz, timeStr)\<close> at the instant \<open>now\<close>. The only call in the \<open>try\<close> block
  that can throw is the formatter's constructor, on a zone it does not know; the \<open>Date\<close>
  constructor does not throw on a string it cannot parse, it returns the Invalid Date.
\<close>

definition combineDateTime :: "env \<Rightarrow> int \<Rightarrow> jsval \<Rightarrow> jsstring \<Rightarrow> jsdate" where
  "combineDateTime e now tz timeStr =
    (let tzIntl = js_or tz default_tz in
     if timeStr = [] then DateMs now
     else
       (case bare_hm timeStr of
          Some hm \<Rightarrow>
            (case zone_parts e (ToString e tzIntl) now of
               None \<Rightarrow> DateMs now
             | Some p \<Rightarrow>
                 new_Date e (JStr (replace_first_slash
                   (part_year p @ [45] @ part_month p @ [45] @ part_day p @ [32] @ hm))))
        | None \<Rightarrow> new_Date e (JStr (replace_first_slash timeStr))))"

section \<open>The record store\<close>

text \<open>
  An expense document. The schema is not strict and the collection holds records of
  several producers, so every field may be missing (\<open>None\<close>) and may hold a value of any
  type. \<open>d_id\<close> is the identifier \<open>_id\<close> that the store assigns.
\<close>

record doc =
  d_id :: nat
  d_amount :: "bson option"
  d_category :: "bson option"
  d_payee :: "bson option"
  d_note :: "bson option"
  d_source :: "bson option"
  d_time :: "bson option"
  d_chat_id :: "bson option"
  d_ts_utc :: "bson option"
  d_time_local :: "bson option"
  d_tz :: "bson option"
  d_ym :: "bson option"
  d_created_at_utc :: "bson option"
  d_createdAt :: "bson option"

text \<open>The collection, in insertion order, and the next identifier.\<close>

record store =
  docs :: "doc list"
  next_id :: nat

text \<open>
  The configuration read at start. \<open>FORCE_CHAT_ID\<close> is the environment variable as it
  stands (\<open>None\<close> when unset); the other three are the constants of the same names.
\<close>

record config =
  FORCE_CHAT_ID :: "jsstring option"
  AI_PROVIDER :: jsstring
  OPENAI_API_KEY :: jsstring
  DASHSCOPE_API_KEY :: jsstring

definition CHAT_ID :: "config \<Rightarrow> jsnum option" where
  "CHAT_ID cfg =
    (case FORCE_CHAT_ID cfg of
       None \<Rightarrow> None
     | Some s \<Rightarrow> if s \<noteq> [] \<and> StringToNumber s \<noteq> NaN then Some (StringToNumber s) else None)"

section \<open>Time Reconciliation Engine: the read side\<close>

definition fmt_dash :: jsstring where "fmt_dash = asc ''%Y-%m-%d %H:%M''"
definition fmt_slash :: jsstring where "fmt_slash = asc ''%Y/%m/%d, %H:%M''"

text \<open>
  The expression of \<open>addParsedTimeStage\<close> on one document: the value of \<open>_time\<close>, a date or
  null (\<open>None\<close>), or the error that ends the aggregation. A \<open>$switch\<close> takes the first
  branch whose case holds; \<open>$ifNull\<close> evaluates its second argument only when the first is
  null; \<open>$dateFromString\<close> gives null on a conversion failure, as \<open>onError\<close> says; \<open>$toDate\<close>
  has no \<open>onError\<close> and raises the failure.
\<close>

definition addParsedTime :: "env \<Rightarrow> doc \<Rightarrow> mongo_error + int option" where
  "addParsedTime e d =
    (let tz = (case d_tz d of
                 None \<Rightarrow> BStr (asc ''Asia/Shanghai'')
               | Some BNull \<Rightarrow> BStr (asc ''Asia/Shanghai'')
               | Some v \<Rightarrow> v)
     in case d_time d of
          Some (BDate t) \<Rightarrow> Inr (Some t)
        | Some (BStr s) \<Rightarrow>
            (case dateFromString_fmt e fmt_dash s of
               Some t \<Rightarrow> Inr (Some t)
             | None \<Rightarrow>
                (case dateFromString_fmt e fmt_slash s of
                   Some t \<Rightarrow> Inr (Some t)
                 | None \<Rightarrow>
                    (case toDate_string e s of
                       Some t \<Rightarrow> Inr (Some t)
                     | None \<Rightarrow> Inl ConversionFailure)))
        | _ \<Rightarrow>
            (case d_ts_utc d of
               Some (BDate t) \<Rightarrow> Inr (Some t)
             | _ \<Rightarrow>
                (case d_created_at_utc d of
                   Some (BDate t) \<Rightarrow> Inr (Some t)
                 | _ \<Rightarrow>
                    (case d_time_local d of
                       Some (BStr s) \<Rightarrow>
                         (case dateFromString_zone e (Some fmt_dash) tz s of
                            Inl err \<Rightarrow> Inl err
                          | Inr (Some t) \<Rightarrow> Inr (Some t)
                          | Inr None \<Rightarrow> dateFromString_zone e None tz s)
                     | _ \<Rightarrow>
                        (case d_createdAt d of
                           Some (BDate t) \<Rightarrow> Inr (Some t)
                         | _ \<Rightarrow> Inr None)))))"

text \<open>The stage on the collection: every document with its \<open>_time\<close>, or the first error.\<close>

fun with_time :: "env \<Rightarrow> doc list \<Rightarrow> mongo_error + (doc \<times> int option) list" where
  "with_time e [] = Inr []"
| "with_time e (d # ds) =
    (case addParsedTime e d of
       Inl err \<Rightarrow> Inl err
     | Inr t \<Rightarrow> (case with_time e ds of Inl err \<Rightarrow> Inl err | Inr r \<Rightarrow> Inr ((d, t) # r)))"

section \<open>Record Store Query Engine\<close>

text \<open>
  A query \<open>{field: n}\<close> for a number: the field holds the number, or an array with the number
  among its elements.
\<close>

definition field_eq_num :: "bson option \<Rightarrow> jsnum \<Rightarrow> bool" where
  "field_eq_num v n =
    (case v of
       Some (BNum m) \<Rightarrow> m = n
     | Some (BArr xs) \<Rightarrow> BNum n \<in> set xs
     | _ \<Rightarrow> False)"

text \<open>
  \<open>chatGuardStage\<close>: the enforced identifier when the stage exists. The stage is built when
  \<open>CHAT_ID\<close> is truthy, so not for 0.
\<close>

definition chatGuardStage :: "config \<Rightarrow> jsnum option" where
  "chatGuardStage cfg =
    (case CHAT_ID cfg of
       None \<Rightarrow> None
     | Some c \<Rightarrow> if truthy (JNum c) then Some c else None)"

text \<open>\<open>{$or: [{chat_id: CHAT_ID}, {chat_id: {$exists: false}}]}\<close>\<close>

definition guard_match :: "jsnum \<Rightarrow> doc \<Rightarrow> bool" where
  "guard_match c d \<longleftrightarrow> field_eq_num (d_chat_id d) c \<or> d_chat_id d = None"

definition guard_stage :: "config \<Rightarrow> (doc \<times> int option) list \<Rightarrow> (doc \<times> int option) list" where
  "guard_stage cfg xs =
    (case chatGuardStage cfg of
       None \<Rightarrow> xs
     | Some c \<Rightarrow> filter (\<lambda>x. guard_match c (fst x)) xs)"

text \<open>
  The filter of the request's own \<open>chat_id\<close>, pushed after the guard when the parameter is
  not empty and reads as a number.
\<close>

definition scope_stage :: "jsstring option \<Rightarrow> (doc \<times> int option) list \<Rightarrow> (doc \<times> int option) list" where
  "scope_stage chat xs =
    (case chat of
       None \<Rightarrow> xs
     | Some s \<Rightarrow>
        if s \<noteq> [] \<and> StringToNumber s \<noteq> NaN
        then filter (\<lambda>x. field_eq_num (d_chat_id (fst x)) (StringToNumber s)) xs
        else xs)"

text \<open>\<open>parseDate\<close>: \<open>s ? new Date(s) : null\<close>\<close>

definition parseDate :: "env \<Rightarrow> jsstring option \<Rightarrow> jsdate option" where
  "parseDate e s =
    (case s of
       None \<Rightarrow> None
     | Some x \<Rightarrow> if x = [] then None else Some (new_Date e (JStr x)))"

text \<open>The instant of a bound as the driver sends it.\<close>

definition bound_ms :: "env \<Rightarrow> jsdate \<Rightarrow> int" where
  "bound_ms e b = (case b of DateMs t \<Rightarrow> t | InvalidDate \<Rightarrow> invalid_date_bson e)"

text \<open>
  \<open>{_time: {$gte: start, $lte: end}}\<close> with the bounds that are given. A comparison with a
  date holds for dates only: a null \<open>_time\<close> is outside every range.
\<close>

definition in_range :: "env \<Rightarrow> jsdate option \<Rightarrow> jsdate option \<Rightarrow> int option \<Rightarrow> bool" where
  "in_range e lo hi t =
    (case t of
       None \<Rightarrow> False
     | Some x \<Rightarrow>
        (case lo of None \<Rightarrow> True | Some b \<Rightarrow> bound_ms e b \<le> x) \<and>
        (case hi of None \<Rightarrow> True | Some b \<Rightarrow> x \<le> bound_ms e b))"

definition range_stage ::
  "env \<Rightarrow> jsstring option \<Rightarrow> jsstring option \<Rightarrow> (doc \<times> int option) list \<Rightarrow> (doc \<times> int option) list" where
  "range_stage e start stop xs =
    (if parseDate e start = None \<and> parseDate e stop = None then xs
     else filter (\<lambda>x. in_range e (parseDate e start) (parseDate e stop) (snd x)) xs)"

text \<open>\<open>rxEscape\<close>: a backslash before each of \<open>. * + ? ^ $ { } ( ) | [ ] \\<close>.\<close>

definition rx_special :: "int \<Rightarrow> bool" where
  "rx_special c \<longleftrightarrow> c \<in> {46, 42, 43, 63, 94, 36, 123, 125, 40, 41, 124, 91, 93, 92}"

definition rxEscape :: "jsstring \<Rightarrow> jsstring" where
  "rxEscape s = concat (map (\<lambda>c. if rx_special c then [92, c] else [c]) s)"

text \<open>A query \<open>{field: regex}\<close>: the field holds a matching string, or an array with one.\<close>

definition field_regex :: "env \<Rightarrow> jsstring \<Rightarrow> bson option \<Rightarrow> bool" where
  "field_regex e r v =
    (case v of
       Some (BStr s) \<Rightarrow> regex_i e r s
     | Some (BArr xs) \<Rightarrow> list_ex (\<lambda>x. case x of BStr s \<Rightarrow> regex_i e r s | _ \<Rightarrow> False) xs
     | _ \<Rightarrow> False)"

definition text_stage :: "env \<Rightarrow> jsstring option \<Rightarrow> (doc \<times> int option) list \<Rightarrow> (doc \<times> int option) list" where
  "text_stage e qtext xs =
    (let q = trim (case qtext of None \<Rightarrow> [] | Some s \<Rightarrow> s) in
     if q = [] then xs
     else filter (\<lambda>x. field_regex e (rxEscape q) (d_payee (fst x))
                     \<or> field_regex e (rxEscape q) (d_category (fst x))
                     \<or> field_regex e (rxEscape q) (d_note (fst x))) xs)"

text \<open>
  \<open>{$sort: {_time: -1, _id: -1}}\<close>: dates from the latest to the earliest, then the nulls;
  equal times by descending identifier. The key is ascending in that order.
\<close>

definition sort_key_desc :: "doc \<times> int option \<Rightarrow> nat \<times> int \<times> int" where
  "sort_key_desc x =
    (case snd x of
       Some t \<Rightarrow> (0, - t, - int (d_id (fst x)))
     | None \<Rightarrow> (1, 0, - int (d_id (fst x))))"

definition sort_stage :: "(doc \<times> int option) list \<Rightarrow> (doc \<times> int option) list" where
  "sort_stage xs = sort_key sort_key_desc xs"

text \<open>The projection of the list: the canonical instant is returned as \<open>time\<close>.\<close>

record item =
  i_id :: nat
  i_amount :: "bson option"
  i_category :: "bson option"
  i_payee :: "bson option"
  i_note :: "bson option"
  i_source :: "bson option"
  i_chat_id :: "bson option"
  i_createdAt :: "bson option"
  i_time :: bson

definition project_item :: "doc \<times> int option \<Rightarrow> item" where
  "project_item x =
    \<lparr>i_id = d_id (fst x), i_amount = d_amount (fst x), i_category = d_category (fst x),
     i_payee = d_payee (fst x), i_note = d_note (fst x), i_source = d_source (fst x),
     i_chat_id = d_chat_id (fst x), i_createdAt = d_createdAt (fst x),
     i_time = (case snd x of None \<Rightarrow> BNull | Some t \<Rightarrow> BDate t)\<rparr>"

text \<open>The parameters of the query string of a request, each a string when present.\<close>

record list_query =
  q_page :: "jsstring option"
  q_limit :: "jsstring option"
  q_start :: "jsstring option"
  q_end :: "jsstring option"
  q_q :: "jsstring option"
  q_chat_id :: "jsstring option"

text \<open>
  \<open>parseInt(s, 10)\<close>: leading white space, an optional sign, the longest run of digits;
  \<open>None\<close> is NaN.
\<close>

definition parseInt10 :: "jsstring \<Rightarrow> int option" where
  "parseInt10 s =
    (let t = dropWhile is_space s;
         neg = (t \<noteq> [] \<and> hd t = 45);
         u = (if t \<noteq> [] \<and> (hd t = 45 \<or> hd t = 43) then tl t else t);
         ds = takeWhile is_digit u
     in if ds = [] then None else Some (if neg then - digits_val ds else digits_val ds))"

text \<open>\<open>s || d\<close> on a parameter.\<close>

definition param_or :: "jsstring option \<Rightarrow> jsstring \<Rightarrow> jsstring" where
  "param_or s d = (case s of None \<Rightarrow> d | Some x \<Rightarrow> if x = [] then d else x)"

text \<open>\<open>Math.max(parseInt(req.query.page || "1", 10), 1)\<close>, NaN when the parameter is.\<close>

definition page_of :: "list_query \<Rightarrow> int option" where
  "page_of q = map_option (\<lambda>n. max n 1) (parseInt10 (param_or (q_page q) (asc ''1'')))"

text \<open>\<open>Math.min(Math.max(parseInt(req.query.limit || "50", 10), 1), 500)\<close>\<close>

definition limit_of :: "list_query \<Rightarrow> int option" where
  "limit_of q = map_option (\<lambda>n. min (max n 1) 500) (parseInt10 (param_or (q_limit q) (asc ''50'')))"

text \<open>
  The documents that reach the sort stage of the list: the stages before it, in the order
  in which the handler pushes them.
\<close>

definition list_matched ::
  "config \<Rightarrow> env \<Rightarrow> list_query \<Rightarrow> doc list \<Rightarrow> mongo_error + (doc \<times> int option) list" where
  "list_matched cfg e q ds =
    (case with_time e ds of
       Inl err \<Rightarrow> Inl err
     | Inr xs \<Rightarrow>
        Inr (text_stage e (q_q q)
              (range_stage e (q_start q) (q_end q)
                (scope_stage (q_chat_id q)
                  (guard_stage cfg xs)))))"

record list_response =
  r_total :: nat
  r_page :: int
  r_pages :: int
  r_limit :: int
  r_data :: "item list"

text \<open>A row of the category summary.\<close>

record stat_row =
  s_category :: bson
  s_total :: jsnum
  s_count :: nat

text \<open>
  What a handler sends: the body of a success, or the status and the message of an error.
\<close>

datatype reply =
  ListReply list_response
| StatsReply "stat_row list"
| CreatedReply doc
| ParsedReply doc parsed
| UpdatedReply doc
| DeletedReply
| Failure nat string

text \<open>
  \<open>GET /api/expenses\<close>. The facet takes the page from the sorted and projected documents
  and counts them all. A page or a limit that is NaN makes the skip or the limit of the
  pipeline NaN, which the store refuses; every error ends in the \<open>catch\<close>.
\<close>

definition list_expenses :: "config \<Rightarrow> env \<Rightarrow> list_query \<Rightarrow> store \<Rightarrow> reply" where
  "list_expenses cfg e q st =
    (case (page_of q, limit_of q) of
       (Some page, Some limit) \<Rightarrow>
         (case list_matched cfg e q (docs st) of
            Inl err \<Rightarrow> Failure 500 ''Failed to fetch expenses''
          | Inr ms \<Rightarrow>
              (let items = map project_item (sort_stage ms);
                   data = take (nat limit) (drop (nat ((page - 1) * limit)) items);
                   total = length items
               in ListReply \<lparr>r_total = total, r_page = page,
                     r_pages = \<lceil>rat_of_nat total / rat_of_int limit\<rceil>,
                     r_limit = limit, r_data = data\<rparr>))
     | _ \<Rightarrow> Failure 500 ''Failed to fetch expenses'')"

subsection \<open>Category summary\<close>









text \<open>The last projection: a null category becomes "Uncategorized".\<close>

definition uncategorized :: jsstring where
  "uncategorized = asc ''Uncategorized''"



section \<open>Ingestion Orchestrator\<close>

text \<open>
  The handlers are modelled from the point where the key check of \<open>requireKey\<close> has let the
  request through. A body is an object whose fields hold primitive values, \<open>undefined\<close> for
  a field that is not sent. The clock is read once for a request, as the instant \<open>now\<close>.
  A handler returns its reply and the store after it; every exception of the source ends
  in the \<open>catch\<close> of its handler, which replies with status 500 and leaves the store as it
  was.
\<close>

subsection \<open>The model layer\<close>

text \<open>
  The object that a handler passes to \<open>Expense.create\<close>. Its time is a valid date by then:
  \<open>toISOString\<close> has thrown otherwise. \<open>ts_utc\<close> is the same date and \<open>created_at_utc\<close> the
  current instant.
\<close>

record payload =
  pl_amount :: jsnum
  pl_category :: jsval
  pl_payee :: jsval
  pl_note :: jsval
  pl_source :: jsval
  pl_time :: int
  pl_chat_id :: "jsnum option"
  pl_tz :: jsval
  pl_time_local :: jsstring
  pl_ym :: jsstring

text \<open>The order of numbers, on the side that the validator \<open>min: 0\<close> asks about.\<close>

definition nonneg :: "jsnum \<Rightarrow> bool" where
  "nonneg n = (case n of Fin q \<Rightarrow> 0 \<le> q | PosInf \<Rightarrow> True | _ \<Rightarrow> False)"

definition source_enum :: "jsstring list" where
  "source_enum = [asc ''telegram'', asc ''web'', asc ''import'', asc ''other'']"

text \<open>
  \<open>Expense.create(payload)\<close>. The library casts every path to the type of the schema (NaN
  is not cast to a number), runs the validators of the schema (\<open>min: 0\<close> on the amount, the
  enumeration of the source) and inserts the document with the default of \<open>createdAt\<close>;
  \<open>None\<close> is the error it throws, and nothing is inserted then.
\<close>

definition Expense_create :: "env \<Rightarrow> int \<Rightarrow> store \<Rightarrow> payload \<Rightarrow> (doc \<times> store) option" where
  "Expense_create e now st p =
    (if pl_amount p = NaN then None
     else if \<not> nonneg (pl_amount p) then None
     else if ToString e (pl_source p) \<notin> set source_enum then None
     else
       (let d = \<lparr>d_id = next_id st,
                 d_amount = Some (BNum (pl_amount p)),
                 d_category = Some (BStr (ToString e (pl_category p))),
                 d_payee = Some (BStr (ToString e (pl_payee p))),
                 d_note = Some (BStr (ToString e (pl_note p))),
                 d_source = Some (BStr (ToString e (pl_source p))),
                 d_time = Some (BDate (pl_time p)),
                 d_chat_id = map_option BNum (pl_chat_id p),
                 d_ts_utc = Some (BDate (pl_time p)),
                 d_time_local = Some (BStr (pl_time_local p)),
                 d_tz = Some (BStr (ToString e (pl_tz p))),
                 d_ym = Some (BStr (pl_ym p)),
                 d_created_at_utc = Some (BDate now),
                 d_createdAt = Some (BDate now)\<rparr>
        in Some (d, st\<lparr>docs := docs st @ [d], next_id := Suc (next_id st)\<rparr>)))"

text \<open>
  The scope of a new record: the enforced identifier when it is truthy, else the one of
  the request when it is truthy and reads as a number.
\<close>

definition chat_id_of :: "config \<Rightarrow> jsval \<Rightarrow> jsnum option" where
  "chat_id_of cfg v =
    (case chatGuardStage cfg of
       Some c \<Rightarrow> Some c
     | None \<Rightarrow> if truthy v \<and> ToNumber v \<noteq> NaN then Some (ToNumber v) else None)"

text \<open>\<open>time.toISOString().slice(0, 7)\<close>\<close>

definition ym_of :: "int \<Rightarrow> jsstring" where
  "ym_of t = take 7 (toISOString t)"

subsection \<open>Direct create\<close>

record create_body =
  b_amount :: jsval
  b_category :: jsval
  b_payee :: jsval
  b_time :: jsval
  b_note :: jsval
  b_source :: jsval
  b_tz :: jsval
  b_chat_id :: jsval

text \<open>
  \<open>POST /api/expenses\<close> at the instant \<open>now\<close>: the reply and the store after it. On an
  Invalid Date \<open>toISOString\<close> throws, which ends in the \<open>catch\<close> like an error of the model
  layer does.
\<close>

definition create_expense ::
  "config \<Rightarrow> env \<Rightarrow> int \<Rightarrow> create_body \<Rightarrow> store \<Rightarrow> reply \<times> store" where
  "create_expense cfg e now b st =
    (if \<not> truthy (b_amount b) \<or> \<not> truthy (b_time b)
     then (Failure 400 ''amount and time are required'', st)
     else
       (let tzStr = js_or (b_tz b) default_tz in
        case new_Date e (b_time b) of
          InvalidDate \<Rightarrow> (Failure 500 ''Failed to create expense'', st)
        | DateMs t \<Rightarrow>
            (case Expense_create e now st
                    \<lparr>pl_amount = ToNumber (b_amount b),
                     pl_category = js_or (b_category b) (JStr uncategorized),
                     pl_payee = js_or (b_payee b) (JStr []),
                     pl_note = js_or (b_note b) (JStr []),
                     pl_source = js_or (b_source b) (JStr (asc ''web'')),
                     pl_time = t,
                     pl_chat_id = chat_id_of cfg (b_chat_id b),
                     pl_tz = tzStr,
                     pl_time_local = formatTimeLocal e (DateMs t) tzStr,
                     pl_ym = ym_of t\<rparr> of
               None \<Rightarrow> (Failure 500 ''Failed to create expense'', st)
             | Some (d, st') \<Rightarrow> (CreatedReply d, st'))))"

subsection \<open>Parse and create\<close>

record parse_body =
  pb_text :: jsval
  pb_tz :: jsval
  pb_chat_id :: jsval

text \<open>
  The choice of the extraction path: the configured provider when it has a key, else the
  first provider that has one; the heuristic parser when no provider is called or the
  call gives no object.
\<close>

definition ai_extract :: "config \<Rightarrow> env \<Rightarrow> jsstring \<Rightarrow> parsed option" where
  "ai_extract cfg e s =
    (if AI_PROVIDER cfg = asc ''openai'' \<and> OPENAI_API_KEY cfg \<noteq> [] then callOpenAIExtract e s
     else if AI_PROVIDER cfg = asc ''dashscope'' \<and> DASHSCOPE_API_KEY cfg \<noteq> [] then callQwenExtract e s
     else if OPENAI_API_KEY cfg \<noteq> [] then callOpenAIExtract e s
     else if DASHSCOPE_API_KEY cfg \<noteq> [] then callQwenExtract e s
     else None)"

definition extract_draft :: "config \<Rightarrow> env \<Rightarrow> jsstring \<Rightarrow> parsed" where
  "extract_draft cfg e s =
    (case ai_extract cfg e s of
       Some p \<Rightarrow> p
     | None \<Rightarrow> parseTextHeuristic s)"

text \<open>
  \<open>POST /api/expenses/parse\<close> at the instant \<open>now\<close>: the reply and the store after it.
\<close>

definition parse_expense ::
  "config \<Rightarrow> env \<Rightarrow> int \<Rightarrow> parse_body \<Rightarrow> store \<Rightarrow> reply \<times> store" where
  "parse_expense cfg e now b st =
    (if \<not> truthy (pb_text b) \<or> trim (ToString e (pb_text b)) = []
     then (Failure 400 ''text is required'', st)
     else
       (let tzStr = js_or (pb_tz b) default_tz;
            text = ToString e (pb_text b);
            p = extract_draft cfg e text;
            amount = ToNumber (p_amount p)
        in if \<not> isFinite amount \<or> amount = Fin 0
           then (Failure 400 ''failed to parse amount'', st)
           else
             (let payee = ToString e (js_or (p_payee p) (JStr []));
                  note0 = ToString e (js_or (p_note p) (JStr []));
                  note = (if note0 = [] then text else note0);
                  category0 = ToString e (js_or (p_category p) (JStr []));
                  category = (if category0 = [] then guessCategory payee note else category0);
                  dt = combineDateTime e now tzStr
                         (trim (ToString e (js_or (p_time p) (JStr []))))
              in case dt of
                   InvalidDate \<Rightarrow> (Failure 500 ''Failed to parse and create expense'', st)
                 | DateMs t \<Rightarrow>
                     (case Expense_create e now st
                             \<lparr>pl_amount = amount,
                              pl_category = js_or (JStr category) (JStr uncategorized),
                              pl_payee = js_or (JStr payee) (JStr []),
                              pl_note = JStr note,
                              pl_source = JStr (asc ''web''),
                              pl_time = t,
                              pl_chat_id = chat_id_of cfg (pb_chat_id b),
                              pl_tz = tzStr,
                              pl_time_local = formatTimeLocal e (DateMs t) tzStr,
                              pl_ym = ym_of t\<rparr> of
                        None \<Rightarrow> (Failure 500 ''Failed to parse and create expense'', st)
                      | Some (d, st') \<Rightarrow> (ParsedReply d p, st')))))"

subsection \<open>Partial update\<close>

text \<open>The body of an update: a field that is not sent is \<open>undefined\<close>.\<close>

record patch_body =
  u_amount :: jsval
  u_category :: jsval
  u_payee :: jsval
  u_note :: jsval
  u_time :: jsval
  u_tz :: jsval

text \<open>
  The object \<open>fields\<close> applied to a document: a field of the body that is defined sets its
  path, and a defined time sets the time and its four mirrors. The time is the valid date
  \<open>t\<close> that the handler has computed.
\<close>

definition set_fields :: "env \<Rightarrow> patch_body \<Rightarrow> int \<Rightarrow> doc \<Rightarrow> doc" where
  "set_fields e b t d =
    (let d1 = (if u_amount b \<noteq> JUndefined
               then d\<lparr>d_amount := Some (BNum (ToNumber (u_amount b)))\<rparr> else d);
         d2 = (if u_category b \<noteq> JUndefined
               then d1\<lparr>d_category :=
                      Some (BStr (ToString e (js_or (u_category b) (JStr uncategorized))))\<rparr>
               else d1);
         d3 = (if u_payee b \<noteq> JUndefined
               then d2\<lparr>d_payee := Some (BStr (ToString e (js_or (u_payee b) (JStr []))))\<rparr>
               else d2);
         d4 = (if u_note b \<noteq> JUndefined
               then d3\<lparr>d_note := Some (BStr (ToString e (js_or (u_note b) (JStr []))))\<rparr>
               else d3)
     in if u_time b \<noteq> JUndefined
        then d4\<lparr>d_time := Some (BDate t),
                d_ts_utc := Some (BDate t),
                d_time_local :=
                  Some (BStr (formatTimeLocal e (DateMs t) (js_or (u_tz b) default_tz))),
                d_tz := Some (BStr (ToString e (js_or (u_tz b) default_tz))),
                d_ym := Some (BStr (ym_of t))\<rparr>
        else d4)"

text \<open>The first document with the identifier, replaced.\<close>

fun update_first :: "nat \<Rightarrow> (doc \<Rightarrow> doc) \<Rightarrow> doc list \<Rightarrow> doc list" where
  "update_first i f [] = []"
| "update_first i f (d # ds) = (if d_id d = i then f d # ds else d # update_first i f ds)"

text \<open>
  \<open>PATCH /api/expenses/:id\<close>. With a defined time that is an Invalid Date, \<open>toISOString\<close>
  throws. \<open>findByIdAndUpdate\<close> casts the update (it throws on an amount that is NaN) and,
  called without \<open>runValidators\<close>, runs no validator of the schema; it returns null when no
  document has the identifier.
\<close>

definition patch_expense ::
  "config \<Rightarrow> env \<Rightarrow> nat \<Rightarrow> patch_body \<Rightarrow> store \<Rightarrow> reply \<times> store" where
  "patch_expense cfg e i b st =
    (case (if u_time b = JUndefined then DateMs 0 else new_Date e (u_time b)) of
       InvalidDate \<Rightarrow> (Failure 500 ''Failed to update expense'', st)
     | DateMs t \<Rightarrow>
        if u_amount b \<noteq> JUndefined \<and> ToNumber (u_amount b) = NaN
        then (Failure 500 ''Failed to update expense'', st)
        else
          (case find (\<lambda>d. d_id d = i) (docs st) of
             None \<Rightarrow> (Failure 404 ''Not found'', st)
           | Some d \<Rightarrow>
               (UpdatedReply (set_fields e b t d),
                st\<lparr>docs := update_first i (set_fields e b t) (docs st)\<rparr>)))"

subsection \<open>Delete\<close>

fun remove_first :: "nat \<Rightarrow> doc list \<Rightarrow> doc list" where
  "remove_first i [] = []"
| "remove_first i (d # ds) = (if d_id d = i then ds else d # remove_first i ds)"

text \<open>\<open>DELETE /api/expenses/:id\<close>\<close>

definition delete_expense :: "nat \<Rightarrow> store \<Rightarrow> reply \<times> store" where
  "delete_expense i st =
    (case find (\<lambda>d. d_id d = i) (docs st) of
       None \<Rightarrow> (Failure 404 ''Not found'', st)
     | Some d \<Rightarrow> (DeletedReply, st\<lparr>docs := remove_first i (docs st)\<rparr>))"

section \<open>Predicates of the claims\<close>

text \<open>The invariant of the data model: the amount is a number that is not negative.\<close>

definition amount_ok :: "doc \<Rightarrow> bool" where
  "amount_ok d = (case d_amount d of Some (BNum n) \<Rightarrow> nonneg n | _ \<Rightarrow> False)"




text \<open>The page and the total of a reply to a list request (nothing for any other reply).\<close>

definition reply_data :: "reply \<Rightarrow> item list" where
  "reply_data r = (case r of ListReply x \<Rightarrow> r_data x | _ \<Rightarrow> [])"

definition reply_total :: "reply \<Rightarrow> nat" where
  "reply_total r = (case r of ListReply x \<Rightarrow> r_total x | _ \<Rightarrow> 0)"





section \<open>Inputs of the examples\<close>

text \<open>
  The text of the extractor's example: U+4E70 U+83DC (buy vegetables), " 45.5 ",
  U+8D85 U+5E02 (supermarket), " 18:30".
\<close>

definition text_groceries :: jsstring where
  "text_groceries =
    [20080, 33756, 32, 52, 53, 46, 53, 32, 36229, 24066, 32, 49, 56, 58, 51, 48]"

text \<open>Starbucks followed by the travel keyword U+505C U+8F66 (parking).\<close>

definition text_starbucks_parking :: jsstring where
  "text_starbucks_parking = kw_starbucks @ [20572, 36710]"

text \<open>The transfer keyword followed by the shopping keyword U+8D85 U+5E02 (supermarket).\<close>

definition text_transfer_supermarket :: jsstring where
  "text_transfer_supermarket = cat_transfer @ [36229, 24066]"

text \<open>
  An environment for the examples: an engine and a store that parse no date string and
  know no time zone (so local times are formatted in UTC), a number formatter for
  integers, a matcher for patterns without special characters, no provider.
\<close>

definition env_min :: env where
  "env_min =
    \<lparr>Date_parse = (\<lambda>s. None),
     zone_parts = (\<lambda>tz t. None),
     NumberToString = (\<lambda>n. case n of Fin q \<Rightarrow> int_string \<lfloor>q\<rfloor> | NaN \<Rightarrow> asc ''NaN''
                              | PosInf \<Rightarrow> asc ''Infinity'' | NegInf \<Rightarrow> asc ''-Infinity''),
     dateFromString_fmt = (\<lambda>f s. None),
     toDate_string = (\<lambda>s. None),
     dateFromString_zone = (\<lambda>f tz s. Inr None),
     regex_i = (\<lambda>r s. str_includes (toLowerCase s) (toLowerCase r)),
     invalid_date_bson = 0,
     callOpenAIExtract = (\<lambda>s. None),
     callQwenExtract = (\<lambda>s. None)\<rparr>"

text \<open>The same environment with an engine that reads a string of digits as a time value.\<close>

definition env_ms :: env where
  "env_ms = env_min\<lparr>Date_parse := (\<lambda>s. if s \<noteq> [] \<and> list_all is_digit s
                                        then Some (digits_val s) else None)\<rparr>"

text \<open>No enforced scope and no provider; the scope 1 enforced.\<close>

definition cfg_open :: config where
  "cfg_open = \<lparr>FORCE_CHAT_ID = None, AI_PROVIDER = [], OPENAI_API_KEY = [],
               DASHSCOPE_API_KEY = []\<rparr>"

definition cfg_forced :: config where
  "cfg_forced = cfg_open\<lparr>FORCE_CHAT_ID := Some (asc ''1'')\<rparr>"

text \<open>A document with nothing but an identifier.\<close>

definition doc_empty :: "nat \<Rightarrow> doc" where
  "doc_empty i =
    \<lparr>d_id = i, d_amount = None, d_category = None, d_payee = None, d_note = None,
     d_source = None, d_time = None, d_chat_id = None, d_ts_utc = None,
     d_time_local = None, d_tz = None, d_ym = None, d_created_at_utc = None,
     d_createdAt = None\<rparr>"

text \<open>A record of the web form: amount 10 at the instant 1754988600000, with its mirrors.\<close>

definition doc_web :: "nat \<Rightarrow> doc" where
  "doc_web i =
    (doc_empty i)
      \<lparr>d_amount := Some (BNum (Fin 10)), d_category := Some (BStr uncategorized),
       d_payee := Some (BStr []), d_note := Some (BStr []),
       d_source := Some (BStr (asc ''web'')), d_time := Some (BDate 1754988600000),
       d_ts_utc := Some (BDate 1754988600000),
       d_time_local := Some (BStr (asc ''2025-08-12 16:50'')),
       d_tz := Some (BStr (asc ''Asia/Shanghai'')), d_ym := Some (BStr (asc ''2025-08'')),
       d_created_at_utc := Some (BDate 1754988600000),
       d_createdAt := Some (BDate 1754988600000)\<rparr>"

text \<open>A record whose time is a string that is no date.\<close>

definition doc_hello :: doc where
  "doc_hello = (doc_empty 7)\<lparr>d_amount := Some (BNum (Fin 3)), d_time := Some (BStr (asc ''hello''))\<rparr>"

text \<open>A record of the scope 1, and a legacy record of the bot with no scope.\<close>

definition doc_scoped :: doc where
  "doc_scoped = (doc_web 1)\<lparr>d_chat_id := Some (BNum (Fin 1))\<rparr>"

definition doc_legacy :: doc where
  "doc_legacy = (doc_empty 2)\<lparr>d_amount := Some (BNum (Fin 5)), d_ts_utc := Some (BDate 1754988600000)\<rparr>"

text \<open>A query with no parameter.\<close>

definition query_none :: list_query where
  "query_none = \<lparr>q_page = None, q_limit = None, q_start = None, q_end = None, q_q = None,
                 q_chat_id = None\<rparr>"


text \<open>A body of an update with no field.\<close>

definition patch_none :: patch_body where
  "patch_none = \<lparr>u_amount = JUndefined, u_category = JUndefined, u_payee = JUndefined,
                 u_note = JUndefined, u_time = JUndefined, u_tz = JUndefined\<rparr>"

text \<open>A text with an amount and a date that no calendar has.\<close>

definition text_bad_date :: jsstring where
  "text_bad_date = asc ''coffee 30 2025-13-45 25:99''"

definition store_one :: store where
  "store_one = \<lparr>docs = [doc_web 1], next_id = 2\<rparr>"

definition store_empty :: store where
  "store_empty = \<lparr>docs = [], next_id = 0\<rparr>"

text \<open>The instant 2025-08-12T08:50:00Z.\<close>

definition now_example :: int where
  "now_example = 1754988600000"

definition body_text :: "jsstring \<Rightarrow> parse_body" where
  "body_text s = \<lparr>pb_text = JStr s, pb_tz = JUndefined, pb_chat_id = JUndefined\<rparr>"

text \<open>Three web records, and the queries for pages of two.\<close>

definition store_three :: store where
  "store_three = \<lparr>docs = [doc_web 1, doc_web 2, doc_web 3], next_id = 4\<rparr>"

definition query_limit :: "string \<Rightarrow> list_query" where
  "query_limit l = query_none\<lparr>q_limit := Some (asc l)\<rparr>"

text \<open>A collection with a record of the scope 1 and a legacy record with no scope.\<close>

definition store_mixed :: store where
  "store_mixed = \<lparr>docs = [doc_scoped, doc_legacy], next_id = 3\<rparr>"

section \<open>Properties of the Category Classifier\<close>

lemmas cat_defs = cat_dining_def cat_shopping_def cat_travel_def cat_digital_def
  cat_entertainment_def cat_telecom_def cat_medical_def cat_transfer_def cat_utilities_def

lemma distinct_labels: "distinct (map fst CATEGORY_KEYWORDS)"
  by (simp add: CATEGORY_KEYWORDS_def cat_defs)

lemma labels_priority: "fst ` set CATEGORY_KEYWORDS = set CATEGORY_PRIORITY"
  by (auto simp: CATEGORY_KEYWORDS_def CATEGORY_PRIORITY_def)

lemma keywords_of_entry:
  "(c, kws) \<in> set CATEGORY_KEYWORDS \<Longrightarrow> keywords_of c = kws"
  using distinct_labels by (simp add: keywords_of_def)

lemma keywords_of_transfer: "keywords_of cat_transfer = kws_transfer"
  by (rule keywords_of_entry) (simp add: CATEGORY_KEYWORDS_def)

lemma keywords_of_utilities: "keywords_of cat_utilities = kws_utilities"
  by (rule keywords_of_entry) (simp add: CATEGORY_KEYWORDS_def)

lemma keywords_of_travel: "keywords_of cat_travel = kws_travel"
  by (rule keywords_of_entry) (simp add: CATEGORY_KEYWORDS_def)

lemma keywords_of_dining: "keywords_of cat_dining = kws_dining"
  by (rule keywords_of_entry) (simp add: CATEGORY_KEYWORDS_def)

text \<open>A label is among the hits exactly when it is a key of the table and its list hits.\<close>

lemma hits_iff:
  "c \<in> set (category_hits text) \<longleftrightarrow>
     (\<exists>kws. (c, kws) \<in> set CATEGORY_KEYWORDS \<and> kw_hit text kws)"
  by (force simp: category_hits_def)

lemma hits_keywords_of:
  "c \<in> set (category_hits text) \<longleftrightarrow>
     c \<in> fst ` set CATEGORY_KEYWORDS \<and> kw_hit text (keywords_of c)"
proof
  assume "c \<in> set (category_hits text)"
  then obtain kws where e: "(c, kws) \<in> set CATEGORY_KEYWORDS" and h: "kw_hit text kws"
    unfolding hits_iff by blast
  from e have "c \<in> fst ` set CATEGORY_KEYWORDS" by force
  with h keywords_of_entry [OF e]
  show "c \<in> fst ` set CATEGORY_KEYWORDS \<and> kw_hit text (keywords_of c)" by simp
next
  assume a: "c \<in> fst ` set CATEGORY_KEYWORDS \<and> kw_hit text (keywords_of c)"
  then obtain kws where e: "(c, kws) \<in> set CATEGORY_KEYWORDS" by force
  with a keywords_of_entry [OF e] show "c \<in> set (category_hits text)"
    unfolding hits_iff by auto
qed

lemma find_hits:
  "find (\<lambda>c. c \<in> set (category_hits text)) CATEGORY_PRIORITY =
   find (\<lambda>c. kw_hit text (keywords_of c)) CATEGORY_PRIORITY"
  by (rule find_cong) (simp_all add: hits_keywords_of labels_priority)

lemma find_hits_None:
  "find (\<lambda>c. c \<in> set (category_hits text)) CATEGORY_PRIORITY = None \<longleftrightarrow>
   category_hits text = []"
proof -
  have "set (category_hits text) \<subseteq> set CATEGORY_PRIORITY"
    using hits_keywords_of labels_priority by auto
  then show ?thesis
    by (cases "category_hits text") (auto simp: find_None_iff)
qed

text \<open>
  The special case of the empty hit set never fires: its two terms are keywords of the
  transfer category, so a text that holds one of them has a hit.
\<close>

lemma special_case_unreachable:
  assumes "category_hits text = []"
  shows "\<not> str_includes text cat_transfer \<and> \<not> str_includes text kw_receive"
proof -
  have "cat_transfer \<notin> set (category_hits text)" using assms by simp
  then have "\<not> kw_hit text kws_transfer"
    by (simp add: hits_keywords_of labels_priority CATEGORY_PRIORITY_def keywords_of_transfer)
  then show ?thesis
    by (simp add: kw_hit_def kws_transfer_def cat_transfer_def kw_receive_def
        toLowerCase_def lower_unit_def)
qed

lemma guessCategory_find:
  "guessCategory payee note =
    (case find (\<lambda>c. kw_hit (guess_text payee note) (keywords_of c)) CATEGORY_PRIORITY of
       Some c \<Rightarrow> c | None \<Rightarrow> cat_other)"
proof (cases "category_hits (guess_text payee note) = []")
  case True
  then have "find (\<lambda>c. kw_hit (guess_text payee note) (keywords_of c)) CATEGORY_PRIORITY = None"
    unfolding find_hits [symmetric] find_hits_None .
  then show ?thesis
    using True special_case_unreachable [OF True] by (simp add: guessCategory_def Let_def)
next
  case False
  then obtain c where
    "find (\<lambda>c. c \<in> set (category_hits (guess_text payee note))) CATEGORY_PRIORITY = Some c"
    using find_hits_None [of "guess_text payee note"]
    by (cases "find (\<lambda>c. c \<in> set (category_hits (guess_text payee note))) CATEGORY_PRIORITY")
      auto
  then show ?thesis
    using False by (simp add: guessCategory_def Let_def find_hits)
qed

lemma starbucks_hits_dining: "str_includes text kw_starbucks \<Longrightarrow> kw_hit text kws_dining"
  by (simp add: kw_hit_def kws_dining_def kw_starbucks_def toLowerCase_def lower_unit_def)

text \<open>
  C8, as the claim states it, fails: a text that holds the Starbucks keyword and no transfer
  keyword, but a keyword of the travel category, is classified as travel, which the
  priority order puts before dining.
\<close>

theorem guessCategory_starbucks_counterexample:
  "str_includes (guess_text [] text_starbucks_parking) kw_starbucks
   \<and> \<not> kw_hit (guess_text [] text_starbucks_parking) kws_transfer
   \<and> guessCategory [] text_starbucks_parking = cat_travel
   \<and> cat_travel \<noteq> cat_dining"
  by code_simp

text \<open>
  C8, amended. \<open>guessCategory\<close> is a total function of the payee and the note that returns
  the first label of the priority order whose keyword list hits the lowered text, and
  "other" when no list hits (the special case for transfer terms cannot fire then). So a
  text with a transfer keyword is classified as transfer whatever else it matches, and a
  text with the Starbucks keyword and no keyword of the transfer, utilities and travel
  categories is classified as dining.
\<close>

theorem guessCategory_priority:
  "guessCategory payee note =
     (case find (\<lambda>c. kw_hit (guess_text payee note) (keywords_of c)) CATEGORY_PRIORITY of
        Some c \<Rightarrow> c | None \<Rightarrow> cat_other)
   \<and> (kw_hit (guess_text payee note) kws_transfer \<longrightarrow> guessCategory payee note = cat_transfer)
   \<and> (str_includes (guess_text payee note) kw_starbucks
        \<and> \<not> kw_hit (guess_text payee note) kws_transfer
        \<and> \<not> kw_hit (guess_text payee note) kws_utilities
        \<and> \<not> kw_hit (guess_text payee note) kws_travel
      \<longrightarrow> guessCategory payee note = cat_dining)"
proof (intro conjI impI)
  show "guessCategory payee note =
     (case find (\<lambda>c. kw_hit (guess_text payee note) (keywords_of c)) CATEGORY_PRIORITY of
        Some c \<Rightarrow> c | None \<Rightarrow> cat_other)"
    by (rule guessCategory_find)
next
  assume "kw_hit (guess_text payee note) kws_transfer"
  then show "guessCategory payee note = cat_transfer"
    by (simp add: guessCategory_find CATEGORY_PRIORITY_def keywords_of_transfer)
next
  assume a: "str_includes (guess_text payee note) kw_starbucks
        \<and> \<not> kw_hit (guess_text payee note) kws_transfer
        \<and> \<not> kw_hit (guess_text payee note) kws_utilities
        \<and> \<not> kw_hit (guess_text payee note) kws_travel"
  then have "kw_hit (guess_text payee note) kws_dining"
    by (simp add: starbucks_hits_dining)
  with a show "guessCategory payee note = cat_dining"
    by (simp add: guessCategory_find CATEGORY_PRIORITY_def keywords_of_transfer
        keywords_of_utilities keywords_of_travel keywords_of_dining)
qed

theorem guessCategory_priority_witness:
  "kw_hit (guess_text [] text_transfer_supermarket) kws_transfer
   \<and> kw_hit (guess_text [] text_transfer_supermarket) kws_shopping
   \<and> guessCategory [] text_transfer_supermarket = cat_transfer
   \<and> str_includes (guess_text [] kw_starbucks) kw_starbucks
   \<and> guessCategory [] kw_starbucks = cat_dining"
proof -
  have t: "kw_hit (guess_text [] text_transfer_supermarket) kws_transfer"
    by code_simp
  have s: "kw_hit (guess_text [] text_transfer_supermarket) kws_shopping"
    by code_simp
  have d: "str_includes (guess_text [] kw_starbucks) kw_starbucks
        \<and> \<not> kw_hit (guess_text [] kw_starbucks) kws_transfer
        \<and> \<not> kw_hit (guess_text [] kw_starbucks) kws_utilities
        \<and> \<not> kw_hit (guess_text [] kw_starbucks) kws_travel"
    by code_simp
  show ?thesis
    using t s d guessCategory_priority [of "[]" text_transfer_supermarket]
      guessCategory_priority [of "[]" kw_starbucks]
    by blast
qed

section \<open>Properties of the Heuristic Field Extractor\<close>

text \<open>
  C9. On the example text the extractor yields the amount 45.5 (the rational 91/2), the
  time string "18:30" and a non-empty note equal to the text; and on every input the note
  of the draft is the trimmed input, whatever the other patterns found.
\<close>

theorem parseTextHeuristic_note:
  "p_amount (parseTextHeuristic text_groceries) = JNum (Fin (91 / 2))
   \<and> p_time (parseTextHeuristic text_groceries) = JStr (asc ''18:30'')
   \<and> str_includes (asc ''18:30'') (asc ''18:30'')
   \<and> p_note (parseTextHeuristic text_groceries) = JStr text_groceries
   \<and> text_groceries \<noteq> []
   \<and> (\<forall>text. p_note (parseTextHeuristic text) = JStr (trim text))"
proof (intro conjI allI)
  show "p_amount (parseTextHeuristic text_groceries) = JNum (Fin (91 / 2))"
    by code_simp
  show "p_time (parseTextHeuristic text_groceries) = JStr (asc ''18:30'')"
    by code_simp
  show "str_includes (asc ''18:30'') (asc ''18:30'')"
    by code_simp
  show "p_note (parseTextHeuristic text_groceries) = JStr text_groceries"
    by code_simp
  show "text_groceries \<noteq> []"
    by (simp add: text_groceries_def)
  show "p_note (parseTextHeuristic t) = JStr (trim t)" for t
    by (simp add: parseTextHeuristic_def Let_def)
qed

section \<open>Properties of the canonical instant\<close>

text \<open>
  The parts of the precedence that hold: a date in \<open>time\<close> wins, then a date in \<open>ts_utc\<close>,
  then one in \<open>created_at_utc\<close>, then the local time, then \<open>createdAt\<close>, then null.
\<close>

lemma with_time_member_error:
  "d \<in> set ds \<Longrightarrow> addParsedTime e d = Inl err \<Longrightarrow> \<exists>err'. with_time e ds = Inl err'"
  by (induction ds) (auto split: sum.splits)

lemma addParsedTime_time_date:
  "d_time d = Some (BDate t) \<Longrightarrow> addParsedTime e d = Inr (Some t)"
  by (simp add: addParsedTime_def)

lemma addParsedTime_ts_utc:
  "d_time d = None \<Longrightarrow> d_ts_utc d = Some (BDate t) \<Longrightarrow> addParsedTime e d = Inr (Some t)"
  by (simp add: addParsedTime_def)

lemma addParsedTime_created_at_utc:
  "d_time d = None \<Longrightarrow> d_ts_utc d = None \<Longrightarrow> d_created_at_utc d = Some (BDate t) \<Longrightarrow>
   addParsedTime e d = Inr (Some t)"
  by (simp add: addParsedTime_def)

text \<open>A local time that neither parser of its branch can read gives null, and no error.\<close>

lemma addParsedTime_time_local_null:
  "d_time d = None \<Longrightarrow> d_ts_utc d = None \<Longrightarrow> d_created_at_utc d = None \<Longrightarrow>
   d_tz d = None \<Longrightarrow> d_time_local d = Some (BStr s) \<Longrightarrow>
   dateFromString_zone e (Some fmt_dash) (BStr (asc ''Asia/Shanghai'')) s = Inr None \<Longrightarrow>
   dateFromString_zone e None (BStr (asc ''Asia/Shanghai'')) s = Inr None \<Longrightarrow>
   addParsedTime e d = Inr None"
  by (simp add: addParsedTime_def)

lemma addParsedTime_createdAt:
  "d_time d = None \<Longrightarrow> d_ts_utc d = None \<Longrightarrow> d_created_at_utc d = None \<Longrightarrow>
   d_time_local d = None \<Longrightarrow> d_createdAt d = Some (BDate t) \<Longrightarrow>
   addParsedTime e d = Inr (Some t)"
  by (simp add: addParsedTime_def)

lemma addParsedTime_nothing:
  "d_time d = None \<Longrightarrow> d_ts_utc d = None \<Longrightarrow> d_created_at_utc d = None \<Longrightarrow>
   d_time_local d = None \<Longrightarrow> d_createdAt d = None \<Longrightarrow>
   addParsedTime e d = Inr None"
  by (simp add: addParsedTime_def)

text \<open>
  C1 fails on the code at one branch. A \<open>time\<close> that is a string matching neither format and
  that the generic conversion cannot read does not give null: \<open>$toDate\<close> raises the
  conversion failure, the aggregation ends with it, and the list of a collection that
  holds such a record is an error. (The same string in \<open>time_local\<close> gives null: both
  parsers there have \<open>onError: null\<close>.)
\<close>

theorem addParsedTime_unparseable_time:
  assumes "d_time d = Some (BStr s)"
    and "dateFromString_fmt e fmt_dash s = None"
    and "dateFromString_fmt e fmt_slash s = None"
    and "toDate_string e s = None"
  shows "addParsedTime e d = Inl ConversionFailure
    \<and> (d \<in> set (docs st) \<longrightarrow> list_expenses cfg e q st = Failure 500 ''Failed to fetch expenses'')"
proof -
  have a: "addParsedTime e d = Inl ConversionFailure"
    using assms by (simp add: addParsedTime_def)
  have "list_expenses cfg e q st = Failure 500 ''Failed to fetch expenses''" if m: "d \<in> set (docs st)"
  proof -
    obtain err where "with_time e (docs st) = Inl err"
      using with_time_member_error [OF m a] by blast
    then show ?thesis
      by (simp add: list_expenses_def list_matched_def split: option.splits prod.splits)
  qed
  with a show ?thesis by blast
qed

theorem addParsedTime_unparseable_time_witness:
  "d_time doc_hello = Some (BStr (asc ''hello''))
   \<and> addParsedTime env_min doc_hello = Inl ConversionFailure
   \<and> list_expenses cfg_open env_min query_none \<lparr>docs = [doc_web 1, doc_hello], next_id = 8\<rparr>
       = Failure 500 ''Failed to fetch expenses''"
proof -
  have t: "d_time doc_hello = Some (BStr (asc ''hello''))"
    by (simp add: doc_hello_def doc_empty_def)
  have p: "dateFromString_fmt env_min fmt_dash (asc ''hello'') = None"
    "dateFromString_fmt env_min fmt_slash (asc ''hello'') = None"
    "toDate_string env_min (asc ''hello'') = None"
    by (simp_all add: env_min_def)
  have m: "doc_hello \<in> set (docs \<lparr>docs = [doc_web 1, doc_hello], next_id = 8\<rparr>)"
    by simp
  show ?thesis
    using t m addParsedTime_unparseable_time [OF t p, of "\<lparr>docs = [doc_web 1, doc_hello], next_id = 8\<rparr>" cfg_open query_none]
    by blast
qed

section \<open>Properties of the amount\<close>

text \<open>
  C3 fails on the code. The validator \<open>min: 0\<close> of the schema runs when a record is created
  and not when one is updated: an update with the amount -5 is accepted and leaves a
  record with a negative amount in the store.
\<close>

theorem patch_negative_amount:
  "amount_ok (doc_web 1)
   \<and> patch_expense cfg_open env_min 1 (patch_none\<lparr>u_amount := JNum (Fin (- 5))\<rparr>)
        \<lparr>docs = [doc_web 1], next_id = 2\<rparr>
      = (UpdatedReply ((doc_web 1)\<lparr>d_amount := Some (BNum (Fin (- 5)))\<rparr>),
         \<lparr>docs = [(doc_web 1)\<lparr>d_amount := Some (BNum (Fin (- 5)))\<rparr>], next_id = 2\<rparr>)
   \<and> \<not> amount_ok ((doc_web 1)\<lparr>d_amount := Some (BNum (Fin (- 5)))\<rparr>)"
  by (simp add: patch_expense_def patch_none_def set_fields_def doc_web_def doc_empty_def amount_ok_def nonneg_def)

text \<open>The two create paths keep the invariant.\<close>

lemma Expense_create_amount:
  "Expense_create e now st p = Some (d, st') \<Longrightarrow> amount_ok d \<and> docs st' = docs st @ [d]"
  by (auto simp: Expense_create_def Let_def amount_ok_def split: if_splits)

lemma create_expense_amount:
  "list_all amount_ok (docs st) \<Longrightarrow> create_expense cfg e now b st = (r, st') \<Longrightarrow> list_all amount_ok (docs st')"
  by (auto simp: create_expense_def Let_def split: if_splits jsdate.splits option.splits dest!: Expense_create_amount)

lemma parse_expense_amount:
  "list_all amount_ok (docs st) \<Longrightarrow> parse_expense cfg e now b st = (r, st') \<Longrightarrow> list_all amount_ok (docs st')"
  by (auto simp: parse_expense_def Let_def split: if_splits jsdate.splits option.splits dest!: Expense_create_amount)

section \<open>Properties of the time-string composition\<close>

text \<open>
  C4 fails on the code. The fallback to the current instant is the \<open>catch\<close> block, and the
  \<open>Date\<close> constructor does not throw: a time string that is not empty, is no bare
  \<open>HH:MM\<close> and cannot be parsed gives the Invalid Date, not the current instant. The handler
  then fails at \<open>toISOString\<close> with a server error.
\<close>

theorem combineDateTime_unparseable:
  assumes "timeStr \<noteq> []" and "bare_hm timeStr = None"
    and "Date_parse e (replace_first_slash timeStr) = None"
  shows "combineDateTime e now tz timeStr = InvalidDate"
  using assms by (simp add: combineDateTime_def new_Date_def Let_def)

theorem combineDateTime_unparseable_witness:
  "asc ''2025-13-45 25:99'' \<noteq> []
   \<and> bare_hm (asc ''2025-13-45 25:99'') = None
   \<and> combineDateTime env_min now_example default_tz (asc ''2025-13-45 25:99'') = InvalidDate
   \<and> p_time (parseTextHeuristic text_bad_date) = JStr (asc ''2025-13-45 25:99'')
   \<and> parse_expense cfg_open env_min now_example (body_text text_bad_date) store_empty
       = (Failure 500 ''Failed to parse and create expense'', store_empty)"
proof -
  have n: "asc ''2025-13-45 25:99'' \<noteq> []" by (simp add: asc_def)
  have b: "bare_hm (asc ''2025-13-45 25:99'') = None" by code_simp
  have p: "Date_parse env_min (replace_first_slash (asc ''2025-13-45 25:99'')) = None"
    by (simp add: env_min_def)
  have t: "p_time (parseTextHeuristic text_bad_date) = JStr (asc ''2025-13-45 25:99'')"
    by code_simp
  have h: "parse_expense cfg_open env_min now_example (body_text text_bad_date) store_empty
       = (Failure 500 ''Failed to parse and create expense'', store_empty)"
    by code_simp
  show ?thesis
    using n b t h combineDateTime_unparseable [OF n b p, of now_example default_tz] by blast
qed

section \<open>Properties of parse-and-create\<close>

text \<open>
  C6. When the amount of the extraction result, converted to a number, is not finite or is
  zero, parse-and-create answers with a validation failure (status 400) and the store is
  the one before the request. The text "hello there" has no amount: whenever no provider
  answers for it, the heuristic draft has the amount null and the request is rejected.
\<close>

theorem parse_expense_rejects_amount:
  "(\<not> isFinite (ToNumber (p_amount (extract_draft cfg e (ToString e (pb_text b)))))
      \<or> ToNumber (p_amount (extract_draft cfg e (ToString e (pb_text b)))) = Fin 0
    \<longrightarrow> parse_expense cfg e now b st =
          (if \<not> truthy (pb_text b) \<or> trim (ToString e (pb_text b)) = []
           then (Failure 400 ''text is required'', st)
           else (Failure 400 ''failed to parse amount'', st)))
   \<and> (ai_extract cfg e (asc ''hello there'') = None
    \<longrightarrow> parse_expense cfg e now (body_text (asc ''hello there'')) st =
          (Failure 400 ''failed to parse amount'', st))"
proof (intro conjI impI)
  assume "\<not> isFinite (ToNumber (p_amount (extract_draft cfg e (ToString e (pb_text b)))))
      \<or> ToNumber (p_amount (extract_draft cfg e (ToString e (pb_text b)))) = Fin 0"
  then show "parse_expense cfg e now b st =
          (if \<not> truthy (pb_text b) \<or> trim (ToString e (pb_text b)) = []
           then (Failure 400 ''text is required'', st)
           else (Failure 400 ''failed to parse amount'', st))"
    by (auto simp: parse_expense_def Let_def)
next
  assume a: "ai_extract cfg e (asc ''hello there'') = None"
  have h: "p_amount (parseTextHeuristic (asc ''hello there'')) = JNull" by code_simp
  have t: "trim (asc ''hello there'') \<noteq> []" by code_simp
  have n: "asc ''hello there'' \<noteq> []" by (simp add: asc_def)
  show "parse_expense cfg e now (body_text (asc ''hello there'')) st =
          (Failure 400 ''failed to parse amount'', st)"
    using a h t n by (simp add: parse_expense_def body_text_def extract_draft_def Let_def)
qed

theorem parse_expense_rejects_amount_witness:
  "ToNumber (p_amount (extract_draft cfg_open env_min (ToString env_min (pb_text (body_text (asc ''hello there'')))))) = Fin 0
   \<and> ai_extract cfg_open env_min (asc ''hello there'') = None
   \<and> parse_expense cfg_open env_min now_example (body_text (asc ''hello there'')) store_one =
       (Failure 400 ''failed to parse amount'', store_one)"
proof -
  have z: "ToNumber (p_amount (extract_draft cfg_open env_min (ToString env_min (pb_text (body_text (asc ''hello there'')))))) = Fin 0"
    by code_simp
  have a: "ai_extract cfg_open env_min (asc ''hello there'') = None"
    by code_simp
  show ?thesis
    using z a parse_expense_rejects_amount [of cfg_open env_min "body_text (asc ''hello there'')" now_example store_one]
    by blast
qed

section \<open>Properties of the partial update\<close>








section \<open>Properties of the list\<close>

subsection \<open>The last page\<close>

lemma ceiling_nat_div:
  fixes N l :: nat
  assumes "0 < l"
  shows "\<lceil>rat_of_nat N / rat_of_int (int l)\<rceil> =
    (if N mod l = 0 then int (N div l) else int (N div l) + 1)"
proof -
  have "\<lceil>rat_of_nat N / rat_of_int (int l)\<rceil> = \<lceil>rat_of_int (int N) / rat_of_int (int l)\<rceil>"
    by simp
  also have "\<dots> = - ((- int N) div int l)"
    by (rule ceiling_divide_eq_div)
  also have "\<dots> = (if int N mod int l = 0 then int N div int l else int N div int l + 1)"
    using assms by (simp add: zdiv_zminus1_eq_if)
  also have "\<dots> = (if N mod l = 0 then int (N div l) else int (N div l) + 1)"
  proof -
    have "int N mod int l = 0 \<longleftrightarrow> N mod l = 0"
      by (metis of_nat_mod of_nat_eq_0_iff)
    moreover have "int N div int l = int (N div l)" by (simp add: zdiv_int)
    ultimately show ?thesis by (simp only:)
  qed
  finally show ?thesis .
qed

lemma last_page_window:
  fixes N l :: nat
  assumes l: "0 < l" and N: "0 < N"
  defines "P \<equiv> \<lceil>rat_of_nat N / rat_of_int (int l)\<rceil>"
  shows "1 \<le> P"
    and "N - nat ((P - 1) * int l) = (if N mod l = 0 then l else N mod l)"
    and "N \<le> nat (P * int l)"
proof -
  have dm: "N div l * l + N mod l = N" by simp
  show "1 \<le> P"
  proof (cases "N mod l = 0")
    case True
    then have "0 < N div l" using N l by (auto simp: div_greater_zero_iff dvd_imp_le)
    then show ?thesis unfolding P_def ceiling_nat_div [OF l] using True by simp
  next
    case False
    then show ?thesis unfolding P_def ceiling_nat_div [OF l] by simp
  qed
  show "N - nat ((P - 1) * int l) = (if N mod l = 0 then l else N mod l)"
  proof (cases "N mod l = 0")
    case True
    then have q: "0 < N div l" using N l by (auto simp: div_greater_zero_iff dvd_imp_le)
    have "(P - 1) * int l = int ((N div l - 1) * l)"
      unfolding P_def ceiling_nat_div [OF l] using True q by (simp add: algebra_simps)
    then have "nat ((P - 1) * int l) = (N div l - 1) * l" by (simp only: nat_int)
    also have "\<dots> = N - l" using dm True q by (simp add: diff_mult_distrib)
    finally have "nat ((P - 1) * int l) = N - l" .
    moreover have "l \<le> N" using q l by (simp add: div_greater_zero_iff)
    moreover have "l \<le> N \<Longrightarrow> N - (N - l) = l" by simp
    ultimately have "N - nat ((P - 1) * int l) = l" by (simp only:)
    then show ?thesis using True by simp
  next
    case False
    have "(P - 1) * int l = int (N div l * l)"
      unfolding P_def ceiling_nat_div [OF l] using False by simp
    then have "nat ((P - 1) * int l) = N div l * l" by (simp only: nat_int)
    moreover have "N - N div l * l = N mod l" using dm by linarith
    ultimately have "N - nat ((P - 1) * int l) = N mod l" by (simp only:)
    then show ?thesis using False by simp
  qed
  show "N \<le> nat (P * int l)"
  proof (cases "N mod l = 0")
    case True
    have "P * int l = int (N div l * l)"
      unfolding P_def ceiling_nat_div [OF l] using True by simp
    then have "nat (P * int l) = N div l * l" by (simp only: nat_int)
    moreover have "N \<le> N div l * l" using dm True by simp
    ultimately show ?thesis by (simp only:)
  next
    case False
    have "P * int l = int ((N div l + 1) * l)"
      unfolding P_def ceiling_nat_div [OF l] using False by (simp add: algebra_simps)
    then have "nat (P * int l) = (N div l + 1) * l" by (simp only: nat_int)
    moreover have "(N div l + 1) * l = N div l * l + l" by simp
    moreover have "N mod l < l" using l by simp
    moreover have "N \<le> N div l * l + l" using dm \<open>N mod l < l\<close> by linarith
    ultimately show ?thesis by (simp only:)
  qed
qed

lemma list_matched_page [simp]:
  "list_matched cfg e (q\<lparr>q_page := p\<rparr>) ds = list_matched cfg e q ds"
  by (simp add: list_matched_def split: sum.splits)

lemma limit_of_page [simp]: "limit_of (q\<lparr>q_page := p\<rparr>) = limit_of q"
  by (simp add: limit_of_def)

lemma limit_of_bounds: "limit_of q = Some L \<Longrightarrow> 1 \<le> L \<and> L \<le> 500"
  by (auto simp: limit_of_def)

lemma list_expenses_reply:
  assumes "list_matched cfg e q (docs st) = Inr ms" and "limit_of q = Some L"
    and "page_of q = Some P"
  shows "list_expenses cfg e q st =
    ListReply \<lparr>r_total = length ms, r_page = P,
      r_pages = \<lceil>rat_of_nat (length ms) / rat_of_int L\<rceil>, r_limit = L,
      r_data = take (nat L) (drop (nat ((P - 1) * L)) (map project_item (sort_stage ms)))\<rparr>"
  using assms by (simp add: list_expenses_def Let_def sort_stage_def)

text \<open>
  C7, as the claim states it, fails for the empty result: with no matching record the page
  \<open>\<lceil>N/L\<rceil>\<close> is 0, the handler raises it to 1 and the page holds no record, where the claim
  counts L records for an N that L divides.
\<close>

theorem list_pagination_counterexample:
  "list_matched cfg_open env_min (query_limit ''10'') (docs store_empty) = Inr []
   \<and> limit_of (query_limit ''10'') = Some 10
   \<and> \<lceil>rat_of_nat (length ([] :: (doc \<times> int option) list)) / rat_of_int 10\<rceil> = 0
   \<and> list_expenses cfg_open env_min ((query_limit ''10'')\<lparr>q_page := Some (asc ''0'')\<rparr>) store_empty
       = ListReply \<lparr>r_total = 0, r_page = 1, r_pages = 0, r_limit = 10, r_data = []\<rparr>
   \<and> length (reply_data (list_expenses cfg_open env_min
         ((query_limit ''10'')\<lparr>q_page := Some (asc ''0'')\<rparr>) store_empty))
       \<noteq> (if (0 :: nat) mod 10 = 0 then 10 else 0 mod 10)"
  by code_simp

text \<open>
  C7, amended: for a result of N matching records with N at least 1. The page size L of a
  request is between 1 and 500; the request for the page \<open>\<lceil>N/L\<rceil>\<close> is answered with the remainder
  (N mod L records, or L when L divides N), the request for the next page with an empty
  page, and both replies carry the total N, which is counted before the page is cut.
\<close>

theorem list_pagination:
  assumes m: "list_matched cfg e q (docs st) = Inr ms"
    and l: "limit_of q = Some L"
    and n: "ms \<noteq> []"
    and p1: "page_of (q\<lparr>q_page := s1\<rparr>) = Some \<lceil>rat_of_nat (length ms) / rat_of_int L\<rceil>"
    and p2: "page_of (q\<lparr>q_page := s2\<rparr>) = Some (\<lceil>rat_of_nat (length ms) / rat_of_int L\<rceil> + 1)"
  shows "1 \<le> L \<and> L \<le> 500 \<and>
    (\<exists>r1 r2. list_expenses cfg e (q\<lparr>q_page := s1\<rparr>) st = ListReply r1
       \<and> list_expenses cfg e (q\<lparr>q_page := s2\<rparr>) st = ListReply r2
       \<and> length (r_data r1) =
           (if length ms mod nat L = 0 then nat L else length ms mod nat L)
       \<and> r_data r2 = []
       \<and> r_total r1 = length ms \<and> r_total r2 = length ms)"
proof -
  have b: "1 \<le> L \<and> L \<le> 500" using limit_of_bounds [OF l] .
  define N where "N = length ms"
  define k where "k = nat L"
  define P where "P = \<lceil>rat_of_nat N / rat_of_int L\<rceil>"
  have L: "L = int k" and k: "0 < k" using b by (simp_all add: k_def)
  have N: "0 < N" using n by (simp add: N_def)
  have P': "P = \<lceil>rat_of_nat N / rat_of_int (int k)\<rceil>" by (simp add: P_def L)
  have w: "N - nat ((P - 1) * int k) = (if N mod k = 0 then k else N mod k)"
    and u: "N \<le> nat (P * int k)"
    unfolding P' using last_page_window [OF k N] by blast+
  have r1: "list_expenses cfg e (q\<lparr>q_page := s1\<rparr>) st =
    ListReply \<lparr>r_total = N, r_page = P, r_pages = P, r_limit = L,
      r_data = take k (drop (nat ((P - 1) * L)) (map project_item (sort_stage ms)))\<rparr>"
    using list_expenses_reply [of cfg e "q\<lparr>q_page := s1\<rparr>" st ms L P] m l p1
    by (simp add: N_def P_def k_def)
  have r2: "list_expenses cfg e (q\<lparr>q_page := s2\<rparr>) st =
    ListReply \<lparr>r_total = N, r_page = P + 1, r_pages = P, r_limit = L,
      r_data = take k (drop (nat (P * L)) (map project_item (sort_stage ms)))\<rparr>"
    using list_expenses_reply [of cfg e "q\<lparr>q_page := s2\<rparr>" st ms L "P + 1"] m l p2
    by (simp add: N_def P_def k_def)
  have len: "length (map project_item (sort_stage ms)) = N"
    by (simp add: sort_stage_def N_def)
  have d1: "length (take k (drop (nat ((P - 1) * L)) (map project_item (sort_stage ms)))) =
      (if N mod k = 0 then k else N mod k)"
  proof -
    have "length (take k (drop (nat ((P - 1) * L)) (map project_item (sort_stage ms)))) =
        min k (N - nat ((P - 1) * int k))"
      using len by (simp add: L min.commute)
    also have "\<dots> = (if N mod k = 0 then k else N mod k)"
    proof -
      have "N mod k < k" using k by simp
      then show ?thesis unfolding w by (simp add: min_def)
    qed
    finally show ?thesis .
  qed
  have d2: "take k (drop (nat (P * L)) (map project_item (sort_stage ms))) = []"
    using u len by (simp add: L)
  show ?thesis
    using b r1 r2 d1 d2 by (simp add: N_def k_def)
qed

theorem list_pagination_witness:
  "list_matched cfg_open env_min (query_limit ''2'') (docs store_three)
     = Inr [(doc_web 1, Some 1754988600000), (doc_web 2, Some 1754988600000),
            (doc_web 3, Some 1754988600000)]
   \<and> (\<exists>r1 r2.
        list_expenses cfg_open env_min ((query_limit ''2'')\<lparr>q_page := Some (asc ''2'')\<rparr>) store_three
          = ListReply r1
      \<and> list_expenses cfg_open env_min ((query_limit ''2'')\<lparr>q_page := Some (asc ''3'')\<rparr>) store_three
          = ListReply r2
      \<and> length (r_data r1) = 1 \<and> r_data r2 = [] \<and> r_total r1 = 3 \<and> r_total r2 = 3)"
proof -
  let ?ms = "[(doc_web 1, Some 1754988600000), (doc_web 2, Some 1754988600000),
            (doc_web 3, Some (1754988600000 :: int))]"
  have m: "list_matched cfg_open env_min (query_limit ''2'') (docs store_three) = Inr ?ms"
    by code_simp
  have l: "limit_of (query_limit ''2'') = Some 2" by code_simp
  have n: "?ms \<noteq> []" by simp
  have c: "\<lceil>rat_of_nat (length ?ms) / rat_of_int 2\<rceil> = 2" by code_simp
  have p1: "page_of ((query_limit ''2'')\<lparr>q_page := Some (asc ''2'')\<rparr>)
      = Some \<lceil>rat_of_nat (length ?ms) / rat_of_int 2\<rceil>"
    unfolding c by code_simp
  have p2: "page_of ((query_limit ''2'')\<lparr>q_page := Some (asc ''3'')\<rparr>)
      = Some (\<lceil>rat_of_nat (length ?ms) / rat_of_int 2\<rceil> + 1)"
    unfolding c by code_simp
  have k: "length ?ms = 3" by simp
  have r: "(if (3 :: nat) mod nat 2 = 0 then nat 2 else 3 mod nat 2) = 1" by simp
  show ?thesis
    using m list_pagination [OF m l n p1 p2] unfolding k r by blast
qed

subsection \<open>The scope of a request\<close>



lemma range_stage_filter:
  "range_stage e a b (filter P xs) = filter P (range_stage e a b xs)"
  by (auto simp: range_stage_def conj_commute)

lemma text_stage_filter:
  "text_stage e t (filter P xs) = filter P (text_stage e t xs)"
  by (auto simp: text_stage_def Let_def conj_commute)

lemma scope_stage_Some:
  "s \<noteq> [] \<Longrightarrow> StringToNumber s \<noteq> NaN \<Longrightarrow>
   scope_stage (Some s) xs = filter (\<lambda>x. field_eq_num (d_chat_id (fst x)) (StringToNumber s)) xs"
  by (simp add: scope_stage_def)

lemma scope_stage_None: "scope_stage None xs = xs"
  by (simp add: scope_stage_def)

lemma guard_stage_Some:
  "chatGuardStage cfg = Some c \<Longrightarrow> guard_stage cfg xs = filter (\<lambda>x. guard_match c (fst x)) xs"
  by (simp add: guard_stage_def)

lemma range_stage_subset: "set (range_stage e a b xs) \<subseteq> set xs"
  by (auto simp: range_stage_def)

lemma text_stage_subset: "set (text_stage e t xs) \<subseteq> set xs"
  by (auto simp: text_stage_def Let_def)

lemma reply_data_subset:
  assumes "i \<in> set (reply_data (list_expenses cfg e q st))"
  shows "\<exists>ms x. list_matched cfg e q (docs st) = Inr ms \<and> x \<in> set ms \<and> i = project_item x"
proof -
  obtain ms P L where m: "list_matched cfg e q (docs st) = Inr ms"
    and i: "i \<in> set (take (nat L) (drop (nat ((P - 1) * L)) (map project_item (sort_stage ms))))"
    using assms
    by (auto simp: reply_data_def list_expenses_def Let_def split: option.splits sum.splits)
  from i have "i \<in> set (map project_item (sort_stage ms))"
    by (meson in_set_takeD in_set_dropD)
  then have "i \<in> project_item ` set ms" by (simp add: sort_stage_def)
  with m show ?thesis by blast
qed

lemma field_eq_num_both:
  "field_eq_num v a \<Longrightarrow> field_eq_num v b \<Longrightarrow> a \<noteq> b \<Longrightarrow> \<exists>xs. v = Some (BArr xs)"
  by (auto simp: field_eq_num_def split: option.splits bson.splits)

text \<open>
  C2, as the claim states it, fails: with the scope 1 enforced and the scope 2 in the
  request, the list is empty, where the request with no scope lists two records. The
  handler pushes the filter of the request after the guard, so the two are combined.
\<close>

theorem list_scope_counterexample:
  "chatGuardStage cfg_forced = Some (Fin 1)
   \<and> guard_match (Fin 1) doc_scoped
   \<and> reply_total (list_expenses cfg_forced env_min query_none
        store_mixed) = 2
   \<and> list_expenses cfg_forced env_min (query_none\<lparr>q_chat_id := Some (asc ''2'')\<rparr>)
        store_mixed
      = ListReply \<lparr>r_total = 0, r_page = 1, r_pages = 0, r_limit = 50, r_data = []\<rparr>
   \<and> list_expenses cfg_forced env_min (query_none\<lparr>q_chat_id := Some (asc ''2'')\<rparr>)
        store_mixed
      \<noteq> list_expenses cfg_forced env_min query_none
        store_mixed"
  by code_simp

text \<open>
  C2, amended. While a scope is enforced, a list request that supplies a scope value is
  answered with the records that pass the guard of the enforced scope and also match the
  supplied value: the result is the result of the same request with no scope, filtered by
  the supplied value. Every record returned has a \<open>chat_id\<close> that matches the enforced value
  and the supplied one, so for two different values only a record whose \<open>chat_id\<close> is an
  array holding both is returned.
\<close>

theorem list_scope_combined:
  assumes g: "chatGuardStage cfg = Some c"
    and s: "q_chat_id q = Some s" "s \<noteq> []" "StringToNumber s \<noteq> NaN"
  shows "list_matched cfg e q (docs st) =
      (case list_matched cfg e (q\<lparr>q_chat_id := None\<rparr>) (docs st) of
         Inl err \<Rightarrow> Inl err
       | Inr ms \<Rightarrow> Inr (filter (\<lambda>x. field_eq_num (d_chat_id (fst x)) (StringToNumber s)) ms))
    \<and> (\<forall>i \<in> set (reply_data (list_expenses cfg e q st)).
          field_eq_num (i_chat_id i) c \<and> field_eq_num (i_chat_id i) (StringToNumber s)
          \<and> (StringToNumber s \<noteq> c \<longrightarrow> (\<exists>xs. i_chat_id i = Some (BArr xs))))"
proof (rule conjI)
  show "list_matched cfg e q (docs st) =
      (case list_matched cfg e (q\<lparr>q_chat_id := None\<rparr>) (docs st) of
         Inl err \<Rightarrow> Inl err
       | Inr ms \<Rightarrow> Inr (filter (\<lambda>x. field_eq_num (d_chat_id (fst x)) (StringToNumber s)) ms))"
    using s
    by (simp add: list_matched_def scope_stage_Some scope_stage_None
        range_stage_filter text_stage_filter split: sum.splits)
next
  show "\<forall>i \<in> set (reply_data (list_expenses cfg e q st)).
          field_eq_num (i_chat_id i) c \<and> field_eq_num (i_chat_id i) (StringToNumber s)
          \<and> (StringToNumber s \<noteq> c \<longrightarrow> (\<exists>xs. i_chat_id i = Some (BArr xs)))"
  proof (rule ballI)
  fix i assume "i \<in> set (reply_data (list_expenses cfg e q st))"
  then obtain ms x where m: "list_matched cfg e q (docs st) = Inr ms"
    and x: "x \<in> set ms" and i: "i = project_item x"
    using reply_data_subset by blast
  obtain xs where w: "with_time e (docs st) = Inr xs"
    and ms: "ms = text_stage e (q_q q) (range_stage e (q_start q) (q_end q)
               (scope_stage (q_chat_id q) (guard_stage cfg xs)))"
    using m by (auto simp: list_matched_def split: sum.splits)
  have "x \<in> set (scope_stage (q_chat_id q) (guard_stage cfg xs))"
    using x ms text_stage_subset range_stage_subset by blast
  then have a: "field_eq_num (d_chat_id (fst x)) (StringToNumber s)"
    and b: "guard_match c (fst x)"
    using s by (simp_all add: scope_stage_Some guard_stage_Some [OF g])
  from a have "d_chat_id (fst x) \<noteq> None"
    by (auto simp: field_eq_num_def split: option.splits)
  with b have b': "field_eq_num (d_chat_id (fst x)) c" by (simp add: guard_match_def)
  have ic: "i_chat_id i = d_chat_id (fst x)" by (simp add: i project_item_def)
  show "field_eq_num (i_chat_id i) c \<and> field_eq_num (i_chat_id i) (StringToNumber s)
          \<and> (StringToNumber s \<noteq> c \<longrightarrow> (\<exists>xs. i_chat_id i = Some (BArr xs)))"
    unfolding ic using a b' field_eq_num_both [OF a b'] by blast
  qed
qed

theorem list_scope_combined_witness:
  "chatGuardStage cfg_forced = Some (Fin 1)
   \<and> StringToNumber (asc ''1'') = Fin 1
   \<and> list_matched cfg_forced env_min (query_none\<lparr>q_chat_id := Some (asc ''1'')\<rparr>)
        (docs store_mixed)
       = Inr [(doc_scoped, Some 1754988600000)]
   \<and> field_eq_num
        (i_chat_id (hd (reply_data (list_expenses cfg_forced env_min
           (query_none\<lparr>q_chat_id := Some (asc ''1'')\<rparr>)
           store_mixed))))
        (Fin 1)"
proof -
  let ?q = "query_none\<lparr>q_chat_id := Some (asc ''1'')\<rparr>"
  let ?st = "store_mixed"
  have g: "chatGuardStage cfg_forced = Some (Fin 1)" by code_simp
  have s: "q_chat_id ?q = Some (asc ''1'')" "asc ''1'' \<noteq> []" "StringToNumber (asc ''1'') \<noteq> NaN"
    by code_simp+
  have n: "StringToNumber (asc ''1'') = Fin 1" by code_simp
  have u: "list_matched cfg_forced env_min (?q\<lparr>q_chat_id := None\<rparr>) (docs ?st)
      = Inr [(doc_scoped, Some 1754988600000), (doc_legacy, Some 1754988600000)]"
    by code_simp
  have f: "filter (\<lambda>x. field_eq_num (d_chat_id (fst x)) (Fin 1))
        [(doc_scoped, Some (1754988600000 :: int)), (doc_legacy, Some 1754988600000)]
      = [(doc_scoped, Some 1754988600000)]"
    by code_simp
  have h: "hd (reply_data (list_expenses cfg_forced env_min ?q ?st))
      \<in> set (reply_data (list_expenses cfg_forced env_min ?q ?st))"
    by code_simp
  note t = list_scope_combined [OF g s, of env_min ?st]
  have m: "list_matched cfg_forced env_min ?q (docs ?st) = Inr [(doc_scoped, Some 1754988600000)]"
    using t [THEN conjunct1] unfolding u n sum.case f .
  have d: "field_eq_num (i_chat_id (hd (reply_data (list_expenses cfg_forced env_min ?q ?st))))
      (Fin 1)"
    using t [THEN conjunct2] h by blast
  show ?thesis using g n m d by blast
qed

subsection \<open>The guard of the enforced scope\<close>













end
